theory Spec2Isabelle
  imports Main "HOL-Library.Word"
begin

section \<open>Stage taxonomy and result types (types.go)\<close>

text \<open>
  \<^verbatim>\<open>type FailureStage string\<close>: a stage is any Go string; the five constants are
  only the values the program itself writes.
\<close>

type_synonym FailureStage = string

definition StageNone :: FailureStage where "StageNone = ''none''"
definition StageLoad :: FailureStage where "StageLoad = ''load''"
definition StageValidate :: FailureStage where "StageValidate = ''validate''"
definition StageInstantiate :: FailureStage where "StageInstantiate = ''instantiate''"
definition StageExecute :: FailureStage where "StageExecute = ''execute''"

text \<open>Values of type \<^verbatim>\<open>interface{}\<close> that cross the runtime boundary.\<close>

datatype goval = GoInt32 "32 word" | GoInt64 "64 word" | GoOther string

text \<open>
  \<^verbatim>\<open>ExecutionResult\<close>. A Go slice is \<^verbatim>\<open>nil\<close> (\<open>None\<close>) or a sequence (\<open>Some vs\<close>).
\<close>

record ExecutionResult =
  FilePath :: string
  FileName :: string
  Success :: bool
  FailureStage :: FailureStage
  ErrorMessage :: string
  ReturnValues :: "goval list option"

text \<open>The zero value a named result parameter starts with.\<close>

definition zero_ExecutionResult :: ExecutionResult where
  "zero_ExecutionResult =
     \<lparr>FilePath = [], FileName = [], Success = False, FailureStage = [],
      ErrorMessage = [], ReturnValues = None\<rparr>"

text \<open>
  The tags \<^verbatim>\<open>json:"error_message,omitempty"\<close> and \<^verbatim>\<open>json:"return_values,omitempty"\<close>:
  the field is written when the string is not empty, and when the slice has an element
  (a nil slice and an empty one are both left out).
\<close>

definition ErrorMessage_present :: "ExecutionResult \<Rightarrow> bool" where
  "ErrorMessage_present r = (ErrorMessage r \<noteq> [])"

definition ReturnValues_present :: "ExecutionResult \<Rightarrow> bool" where
  "ReturnValues_present r = (case ReturnValues r of None \<Rightarrow> False | Some vs \<Rightarrow> vs \<noteq> [])"

text \<open>
  \<^verbatim>\<open>FuzzingReport\<close>. The counters are Go \<^verbatim>\<open>int\<close>s (64 bits); each is bounded by the
  length of a slice, which is below \<open>2^63\<close>, so they are modelled as unbounded integers.
\<close>

record FuzzingReport =
  TotalFiles :: int
  Passed :: int
  Failed :: int
  Results :: "ExecutionResult list"
  FailureCounts :: "FailureStage \<rightharpoonup> int"

section \<open>Errors (the \<^verbatim>\<open>error\<close> interface, \<^verbatim>\<open>RuntimeError\<close>, \<^verbatim>\<open>errors.As\<close>)\<close>

text \<open>
  A non-nil value of the interface type \<^verbatim>\<open>error\<close>:
  \<^item> \<open>PlainError s\<close>: any error that is not a \<^verbatim>\<open>*RuntimeError\<close> and unwraps to nothing,
    with \<open>s\<close> its \<^verbatim>\<open>Error()\<close> text (\<^verbatim>\<open>errors.New(s)\<close>);
  \<^item> \<open>RuntimeErrorPtr p\<close>: an interface holding a \<^verbatim>\<open>*RuntimeError\<close>; \<open>p = None\<close> is the
    nil pointer, which as an interface value still differs from \<^verbatim>\<open>nil\<close>;
  \<^item> \<open>WrapError s e\<close>: an error with text \<open>s\<close> whose \<^verbatim>\<open>Unwrap() error\<close> gives \<open>e\<close>
    (\<^verbatim>\<open>fmt.Errorf("...%w", e)\<close>);
  \<^item> \<open>JoinError s es\<close>: an error with text \<open>s\<close> whose \<^verbatim>\<open>Unwrap() []error\<close> gives \<open>es\<close>.
  The methods of an error (\<^verbatim>\<open>Error\<close>, \<^verbatim>\<open>Unwrap\<close>) are taken to return.
\<close>

datatype goerror =
    PlainError string
  | RuntimeErrorPtr "RuntimeError option"
  | WrapError string goerror
  | JoinError string "goerror list"
and RuntimeError =
    RuntimeError (Stage: FailureStage) (Message: string) (Cause: "goerror option")

text \<open>
  \<^verbatim>\<open>(*RuntimeError).Error\<close>, and the text \<^verbatim>\<open>%v\<close> prints for an error: its \<^verbatim>\<open>Error()\<close>
  text, or \<^verbatim>\<open><nil>\<close> where the receiver is a nil pointer (\<^verbatim>\<open>fmt\<close> catches that panic).
\<close>

fun fmt_v :: "goerror \<Rightarrow> string" and RuntimeError_Error :: "RuntimeError \<Rightarrow> string" where
  "fmt_v (PlainError s) = s"
| "fmt_v (RuntimeErrorPtr None) = ''<nil>''"
| "fmt_v (RuntimeErrorPtr (Some e)) = RuntimeError_Error e"
| "fmt_v (WrapError s e) = s"
| "fmt_v (JoinError s es) = s"
| "RuntimeError_Error (RuntimeError stage message (Some cause)) =
     stage @ '': '' @ message @ '': '' @ fmt_v cause"
| "RuntimeError_Error (RuntimeError stage message None) = stage @ '': '' @ message"

text \<open>
  \<^verbatim>\<open>errors.As(err, &runtimeErr)\<close> with \<^verbatim>\<open>var runtimeErr *RuntimeError\<close> (Go 1.21):
  walk the tree depth first; the first error whose dynamic type is \<^verbatim>\<open>*RuntimeError\<close>
  is stored in the target, nil pointer or not. \<open>None\<close> is the result \<^verbatim>\<open>false\<close>,
  \<open>Some p\<close> the result \<^verbatim>\<open>true\<close> with \<^verbatim>\<open>runtimeErr = p\<close>.
\<close>

fun first_match :: "'a option list \<Rightarrow> 'a option" where
  "first_match [] = None"
| "first_match (Some p # rs) = Some p"
| "first_match (None # rs) = first_match rs"

fun errors_As :: "goerror \<Rightarrow> RuntimeError option option" where
  "errors_As (PlainError s) = None"
| "errors_As (RuntimeErrorPtr p) = Some p"
| "errors_As (WrapError s e) = errors_As e"
| "errors_As (JoinError s es) = first_match (map errors_As es)"

section \<open>Paths (\<^verbatim>\<open>path/filepath\<close> on Unix)\<close>

definition IsPathSeparator :: "char \<Rightarrow> bool" where
  "IsPathSeparator c = (c = CHR ''/'')"

text \<open>
  \<^verbatim>\<open>filepath.Base\<close>: the empty path gives \<^verbatim>\<open>"."\<close>; trailing separators are cut; the
  last element is what follows the last separator; a path of separators only gives
  \<^verbatim>\<open>"/"\<close>.
\<close>

definition filepath_Base :: "string \<Rightarrow> string" where
  "filepath_Base path =
     (if path = [] then ''.''
      else
        let path1 = rev (dropWhile IsPathSeparator (rev path));
            path2 = rev (takeWhile (\<lambda>c. \<not> IsPathSeparator c) (rev path1))
        in if path2 = [] then ''/'' else path2)"

text \<open>
  \<^verbatim>\<open>filepath.Ext\<close>:
  \<^verbatim>\<open>for i := len(path) - 1; i >= 0 && !os.IsPathSeparator(path[i]); i-- {
       if path[i] == '.' { return path[i:] } }
     return ""\<close>
  The counter of \<open>Ext_loop\<close> is \<open>i + 1\<close>.
\<close>

fun Ext_loop :: "string \<Rightarrow> nat \<Rightarrow> string" where
  "Ext_loop path 0 = []"
| "Ext_loop path (Suc i) =
     (if IsPathSeparator (path ! i) then []
      else if path ! i = CHR ''.'' then drop i path
      else Ext_loop path i)"

definition filepath_Ext :: "string \<Rightarrow> string" where
  "filepath_Ext path = Ext_loop path (length path)"

section \<open>Calls, panics and deferred functions\<close>

text \<open>
  A call into the runtime returns or panics; \<open>Panics v\<close> carries the text \<^verbatim>\<open>%v\<close>
  prints for the panic value (never nil: the module declares go 1.21, where
  \<^verbatim>\<open>panic(nil)\<close> raises a \<^verbatim>\<open>*runtime.PanicNilError\<close>).
  Every call reads and updates the state \<open>'w\<close> of the world outside the processor.
\<close>

datatype 'a outcome = Returns 'a | Panics string

text \<open>
  A function that is deferred as it is (\<^verbatim>\<open>defer module.Close()\<close>) is the deferred
  function itself, so a \<^verbatim>\<open>recover()\<close> in it ends the panic in flight. It completes
  without doing so, or returns after a \<^verbatim>\<open>recover()\<close>, or raises a panic of its own (with
  or without a \<^verbatim>\<open>recover()\<close> before). Whether it does may depend on the panic in flight:
  the world it is given is the one the panicking call left.
\<close>

datatype deferred_outcome = Completes | Recovers | Raises string

text \<open>
  What a processor did, in order: the calls it made, the panics raised in it (by a call
  or by the processor's own code), the panics a deferred call of the runtime ended, and
  the panics the processor's own closure recovered.
\<close>

datatype event = Called string | Panicked string | Stopped string | Recovered string

fun calls_of :: "event list \<Rightarrow> string list" where
  "calls_of [] = []"
| "calls_of (Called name # tr) = name # calls_of tr"
| "calls_of (ev # tr) = calls_of tr"

fun panics_of :: "event list \<Rightarrow> string list" where
  "panics_of [] = []"
| "panics_of (Panicked v # tr) = v # panics_of tr"
| "panics_of (ev # tr) = panics_of tr"

fun stops_of :: "event list \<Rightarrow> string list" where
  "stops_of [] = []"
| "stops_of (Stopped v # tr) = v # stops_of tr"
| "stops_of (ev # tr) = stops_of tr"

fun recoveries_of :: "event list \<Rightarrow> string list" where
  "recoveries_of [] = []"
| "recoveries_of (Recovered v # tr) = v # recoveries_of tr"
| "recoveries_of (ev # tr) = recoveries_of tr"

text \<open>The panic in flight after a log, given the one before it.\<close>

fun in_flight_after :: "string option \<Rightarrow> event list \<Rightarrow> string option" where
  "in_flight_after p [] = p"
| "in_flight_after p (Called name # tr) = in_flight_after p tr"
| "in_flight_after p (Panicked v # tr) = in_flight_after (Some v) tr"
| "in_flight_after p (Stopped v # tr) = in_flight_after None tr"
| "in_flight_after p (Recovered v # tr) = in_flight_after None tr"

definition pending :: "event list \<Rightarrow> string option" where
  "pending tr = in_flight_after None tr"

text \<open>
  A deferred function: a call into the runtime (with its name for the log), or the
  recovery closure, which is the same text in both processors.
\<close>

datatype 'w deferred = DeferCall string "'w \<Rightarrow> deferred_outcome \<times> 'w" | DeferRecover

text \<open>
  The activation of a processor: its named result, its deferred functions (latest
  first), the panic in flight if any, the world and the log.
\<close>

record 'w frame =
  result :: ExecutionResult
  defers :: "'w deferred list"
  panicking :: "string option"
  world :: 'w
  trace :: "event list"

definition nil_dereference :: string where
  "nil_dereference = ''runtime error: invalid memory address or nil pointer dereference''"

text \<open>
  Statements in continuation style: each takes the rest of the body. A call that
  panics and \<open>go_panic\<close> leave the body with the panic in flight; \<open>go_return\<close> leaves it
  normally.
\<close>

definition go_assign ::
  "(ExecutionResult \<Rightarrow> ExecutionResult) \<Rightarrow> ('w frame \<Rightarrow> 'w frame) \<Rightarrow> 'w frame \<Rightarrow> 'w frame" where
  "go_assign upd rest fr = rest (fr\<lparr>result := upd (result fr)\<rparr>)"

definition go_defer :: "'w deferred \<Rightarrow> ('w frame \<Rightarrow> 'w frame) \<Rightarrow> 'w frame \<Rightarrow> 'w frame" where
  "go_defer d rest fr = rest (fr\<lparr>defers := d # defers fr\<rparr>)"

definition go_call ::
  "string \<Rightarrow> ('w \<Rightarrow> 'a outcome \<times> 'w) \<Rightarrow> ('a \<Rightarrow> 'w frame \<Rightarrow> 'w frame) \<Rightarrow> 'w frame \<Rightarrow> 'w frame" where
  "go_call name f rest fr =
     (case f (world fr) of
        (Returns x, w') \<Rightarrow> rest x (fr\<lparr>world := w', trace := trace fr @ [Called name]\<rparr>)
      | (Panics v, w') \<Rightarrow>
          fr\<lparr>world := w', trace := trace fr @ [Called name, Panicked v], panicking := Some v\<rparr>)"

definition go_panic :: "string \<Rightarrow> 'w frame \<Rightarrow> 'w frame" where
  "go_panic v fr = fr\<lparr>trace := trace fr @ [Panicked v], panicking := Some v\<rparr>"

definition go_return :: "'w frame \<Rightarrow> 'w frame" where
  "go_return fr = fr"

text \<open>
  The deferred closure of both processors:
  \<^verbatim>\<open>if r := recover(); r != nil {
       result.Success = false
       result.FailureStage = StageExecute
       result.ErrorMessage = fmt.Sprintf("panic recovered: %v", r) }\<close>
  \<^verbatim>\<open>recover()\<close> ends the panic in flight and gives its value, or nil when there is none.
\<close>

definition recovery :: "'w frame \<Rightarrow> 'w frame" where
  "recovery fr =
     (case panicking fr of
        None \<Rightarrow> fr
      | Some r \<Rightarrow>
          fr\<lparr>panicking := None,
             trace := trace fr @ [Recovered r],
             result := (result fr)\<lparr>Success := False, FailureStage := StageExecute,
                                   ErrorMessage := ''panic recovered: '' @ r\<rparr>\<rparr>)"

text \<open>
  Running one deferred function. A deferred call that completes leaves the panic in
  flight as it is; one that recovers ends it (and changes nothing when there is none);
  one that panics replaces it.
\<close>

fun run_deferred :: "'w deferred \<Rightarrow> 'w frame \<Rightarrow> 'w frame" where
  "run_deferred (DeferCall name f) fr =
     (case f (world fr) of
        (Completes, w') \<Rightarrow> fr\<lparr>world := w', trace := trace fr @ [Called name]\<rparr>
      | (Recovers, w') \<Rightarrow>
          fr\<lparr>world := w',
             trace := trace fr @ [Called name] @
               (case panicking fr of None \<Rightarrow> [] | Some v \<Rightarrow> [Stopped v]),
             panicking := None\<rparr>
      | (Raises v, w') \<Rightarrow>
          fr\<lparr>world := w', trace := trace fr @ [Called name, Panicked v], panicking := Some v\<rparr>)"
| "run_deferred DeferRecover fr = recovery fr"

fun unwind :: "'w deferred list \<Rightarrow> 'w frame \<Rightarrow> 'w frame" where
  "unwind [] fr = fr"
| "unwind (d # ds) fr = unwind ds (run_deferred d fr)"

text \<open>
  Leaving the function: the deferred functions run, latest first; then the caller gets
  the named result, or the panic still in flight.
\<close>

definition leave :: "'w frame \<Rightarrow> ExecutionResult outcome \<times> 'w \<times> event list" where
  "leave fr =
     (let fr' = unwind (defers fr) fr
      in (case panicking fr' of None \<Rightarrow> Returns (result fr') | Some v \<Rightarrow> Panics v,
          world fr', trace fr'))"

definition enter :: "'w \<Rightarrow> 'w frame" where
  "enter w = \<lparr>result = zero_ExecutionResult, defers = [], panicking = None, world = w, trace = []\<rparr>"

section \<open>The runtime boundary and the file processor\<close>

text \<open>
  \<^verbatim>\<open>WasmModule\<close> and \<^verbatim>\<open>WasmRuntime\<close>: interfaces, so any behaviour. \<^verbatim>\<open>LoadModule\<close>
  returns a pair: the module (nil or not) and the error (nil or not), independently.
  \<^verbatim>\<open>Close\<close> is only ever called as a deferred function.
\<close>

record 'w WasmModule =
  Execute :: "string \<Rightarrow> goval list \<Rightarrow> 'w \<Rightarrow> (goval list option \<times> goerror option) outcome \<times> 'w"
  Close :: "'w \<Rightarrow> deferred_outcome \<times> 'w"

record 'w WasmRuntime =
  LoadModule :: "string \<Rightarrow> 'w \<Rightarrow> ('w WasmModule option \<times> goerror option) outcome \<times> 'w"

text \<open>
  \<^verbatim>\<open>processWasmFileWithRuntime\<close>, statement by statement. Reading a field of the nil
  \<^verbatim>\<open>runtimeErr\<close> and deferring a method of the nil interface \<^verbatim>\<open>module\<close> panic.
\<close>

definition processWasmFileWithRuntime_body ::
  "string \<Rightarrow> 'w WasmRuntime \<Rightarrow> 'w frame \<Rightarrow> 'w frame" where
  "processWasmFileWithRuntime_body filePath runtime =
     go_assign (\<lambda>r. r\<lparr>FilePath := filePath\<rparr>) (
     go_assign (\<lambda>r. r\<lparr>FileName := filepath_Base filePath\<rparr>) (
     go_assign (\<lambda>r. r\<lparr>FailureStage := StageNone\<rparr>) (
     go_defer DeferRecover (
     go_call ''LoadModule'' (LoadModule runtime filePath) (\<lambda>(module, err).
     case err of
       Some e \<Rightarrow>
         go_assign (\<lambda>r. r\<lparr>Success := False\<rparr>) (
         case errors_As e of
           Some runtimeErr \<Rightarrow>
             (case runtimeErr of
                None \<Rightarrow> go_panic nil_dereference
              | Some re \<Rightarrow>
                  go_assign (\<lambda>r. r\<lparr>FailureStage := Stage re\<rparr>) (
                  go_assign (\<lambda>r. r\<lparr>ErrorMessage := Message re\<rparr>) (
                  go_return)))
         | None \<Rightarrow>
             go_assign (\<lambda>r. r\<lparr>FailureStage := StageLoad\<rparr>) (
             go_assign (\<lambda>r. r\<lparr>ErrorMessage := ''load failed: '' @ fmt_v e\<rparr>) (
             go_return)))
     | None \<Rightarrow>
         (case module of
            None \<Rightarrow> go_panic nil_dereference
          | Some m \<Rightarrow>
              go_defer (DeferCall ''Close'' (Close m)) (
              go_call ''Execute'' (Execute m ''process'' [GoInt32 1]) (\<lambda>(returns, err).
              case err of
                Some e \<Rightarrow>
                  go_assign (\<lambda>r. r\<lparr>Success := False\<rparr>) (
                  case errors_As e of
                    Some runtimeErr \<Rightarrow>
                      (case runtimeErr of
                         None \<Rightarrow> go_panic nil_dereference
                       | Some re \<Rightarrow>
                           go_assign (\<lambda>r. r\<lparr>FailureStage := Stage re\<rparr>) (
                           go_assign (\<lambda>r. r\<lparr>ErrorMessage := Message re\<rparr>) (
                           go_return)))
                  | None \<Rightarrow>
                      go_assign (\<lambda>r. r\<lparr>FailureStage := StageExecute\<rparr>) (
                      go_assign (\<lambda>r. r\<lparr>ErrorMessage := ''execution failed: '' @ fmt_v e\<rparr>) (
                      go_return)))
              | None \<Rightarrow>
                  go_assign (\<lambda>r. r\<lparr>Success := True\<rparr>) (
                  go_assign (\<lambda>r. r\<lparr>ReturnValues := returns\<rparr>) (
                  go_return))))))))))"

definition processWasmFileWithRuntime ::
  "string \<Rightarrow> 'w WasmRuntime \<Rightarrow> 'w \<Rightarrow> ExecutionResult outcome \<times> 'w \<times> event list" where
  "processWasmFileWithRuntime filePath runtime w =
     leave (processWasmFileWithRuntime_body filePath runtime (enter w))"

section \<open>The batch runner (main_stub.go)\<close>

text \<open>
  The listing collaborator \<^verbatim>\<open>os.ReadDir\<close> reads the world and gives entries and an
  error (nil or not); \<^verbatim>\<open>filepath.Join\<close> is a parameter \<open>Join\<close>.
\<close>

record DirEntry =
  Name :: string
  IsDir :: bool

text \<open>The loop of \<^verbatim>\<open>collectWasmFiles\<close>; a nil slice is the empty list.\<close>

fun collect_loop :: "(string \<Rightarrow> string \<Rightarrow> string) \<Rightarrow> string \<Rightarrow> DirEntry list \<Rightarrow> string list \<Rightarrow> string list" where
  "collect_loop Join dirPath [] files = files"
| "collect_loop Join dirPath (entry # entries) files =
     (if IsDir entry then collect_loop Join dirPath entries files
      else if filepath_Ext (Name entry) = ''.wasm''
      then collect_loop Join dirPath entries (files @ [Join dirPath (Name entry)])
      else collect_loop Join dirPath entries files)"

definition collectWasmFiles ::
  "(string \<Rightarrow> 'w \<Rightarrow> DirEntry list \<times> goerror option) \<Rightarrow> (string \<Rightarrow> string \<Rightarrow> string) \<Rightarrow>
   string \<Rightarrow> 'w \<Rightarrow> string list \<times> goerror option" where
  "collectWasmFiles ReadDir Join dirPath w =
     (case ReadDir dirPath w of
        (entries, Some err) \<Rightarrow>
          ([], Some (WrapError (''failed to read directory: '' @ fmt_v err) err))
      | (entries, None) \<Rightarrow> (collect_loop Join dirPath entries [], None))"

text \<open>
  \<^verbatim>\<open>report.FailureCounts[stage]++\<close>: a missing key reads as zero.
\<close>

definition increment :: "(FailureStage \<rightharpoonup> int) \<Rightarrow> FailureStage \<Rightarrow> (FailureStage \<rightharpoonup> int)" where
  "increment counts stage = counts(stage \<mapsto> (case counts stage of None \<Rightarrow> 0 | Some n \<Rightarrow> n) + 1)"

text \<open>
  The loop over the files. A panic of the file processor would leave the loop and the
  batch runner, which has no recovery of its own.
\<close>

fun process_files ::
  "'w WasmRuntime \<Rightarrow> string list \<Rightarrow> FuzzingReport \<Rightarrow> 'w \<Rightarrow> FuzzingReport outcome \<times> 'w" where
  "process_files runtime [] report w = (Returns report, w)"
| "process_files runtime (filePath # files) report w =
     (case processWasmFileWithRuntime filePath runtime w of
        (Panics v, w', tr) \<Rightarrow> (Panics v, w')
      | (Returns res, w', tr) \<Rightarrow>
          process_files runtime files
            (if Success res
             then report\<lparr>Results := Results report @ [res], Passed := Passed report + 1\<rparr>
             else report\<lparr>Results := Results report @ [res], Failed := Failed report + 1,
                         FailureCounts := increment (FailureCounts report) (FailureStage res)\<rparr>)
            w')"

definition initial_report :: FuzzingReport where
  "initial_report =
     \<lparr>TotalFiles = 0, Passed = 0, Failed = 0, Results = [],
      FailureCounts = Map.empty(StageLoad \<mapsto> 0, StageValidate \<mapsto> 0,
                                StageInstantiate \<mapsto> 0, StageExecute \<mapsto> 0)\<rparr>"

definition runFuzzerWithRuntime ::
  "(string \<Rightarrow> 'w \<Rightarrow> DirEntry list \<times> goerror option) \<Rightarrow> (string \<Rightarrow> string \<Rightarrow> string) \<Rightarrow>
   string \<Rightarrow> 'w WasmRuntime \<Rightarrow> 'w \<Rightarrow> (FuzzingReport \<times> goerror option) outcome \<times> 'w" where
  "runFuzzerWithRuntime ReadDir Join dirPath runtime w =
     (case collectWasmFiles ReadDir Join dirPath w of
        (files, Some err) \<Rightarrow> (Returns (initial_report, Some err), w)
      | (files, None) \<Rightarrow>
          (case process_files runtime files
                  (initial_report\<lparr>TotalFiles := int (length files)\<rparr>) w of
             (Panics v, w') \<Rightarrow> (Panics v, w')
           | (Returns report, w') \<Rightarrow> (Returns (report, None), w')))"

text \<open>The world each file is processed in: the one the files before it left.\<close>

fun world_after :: "'w WasmRuntime \<Rightarrow> string list \<Rightarrow> 'w \<Rightarrow> 'w" where
  "world_after runtime [] w = w"
| "world_after runtime (filePath # files) w =
     world_after runtime files (fst (snd (processWasmFileWithRuntime filePath runtime w)))"

text \<open>The sum of the values of a map with finitely many keys.\<close>

definition sum_values :: "(FailureStage \<rightharpoonup> int) \<Rightarrow> int" where
  "sum_values counts = (\<Sum>k \<in> dom counts. the (counts k))"

section \<open>The processor over the WasmEdge SDK (main.go)\<close>

text \<open>
  The calls \<^verbatim>\<open>processWasmFile\<close> makes into the SDK, each returning or panicking. \<open>'h\<close>
  is the type of the SDK's objects (pointers, nil included); \<^verbatim>\<open>FindFunction\<close> gives nil
  (\<open>None\<close>) or a function, which the processor tells apart. Every \<^verbatim>\<open>Release\<close> is
  only ever called as a deferred function.
\<close>

record ('w, 'h) wasmedge =
  NewConfigure :: "'w \<Rightarrow> 'h outcome \<times> 'w"
  Configure_Release :: "'h \<Rightarrow> 'w \<Rightarrow> deferred_outcome \<times> 'w"
  NewLoader :: "'w \<Rightarrow> 'h outcome \<times> 'w"
  Loader_Release :: "'h \<Rightarrow> 'w \<Rightarrow> deferred_outcome \<times> 'w"
  LoadFile :: "'h \<Rightarrow> string \<Rightarrow> 'w \<Rightarrow> ('h \<times> goerror option) outcome \<times> 'w"
  AST_Release :: "'h \<Rightarrow> 'w \<Rightarrow> deferred_outcome \<times> 'w"
  NewValidator :: "'w \<Rightarrow> 'h outcome \<times> 'w"
  Validator_Release :: "'h \<Rightarrow> 'w \<Rightarrow> deferred_outcome \<times> 'w"
  Validate :: "'h \<Rightarrow> 'h \<Rightarrow> 'w \<Rightarrow> goerror option outcome \<times> 'w"
  NewStore :: "'w \<Rightarrow> 'h outcome \<times> 'w"
  Store_Release :: "'h \<Rightarrow> 'w \<Rightarrow> deferred_outcome \<times> 'w"
  NewExecutor :: "'w \<Rightarrow> 'h outcome \<times> 'w"
  Executor_Release :: "'h \<Rightarrow> 'w \<Rightarrow> deferred_outcome \<times> 'w"
  Instantiate :: "'h \<Rightarrow> 'h \<Rightarrow> 'h \<Rightarrow> 'w \<Rightarrow> ('h \<times> goerror option) outcome \<times> 'w"
  Module_Release :: "'h \<Rightarrow> 'w \<Rightarrow> deferred_outcome \<times> 'w"
  FindFunction :: "'h \<Rightarrow> string \<Rightarrow> 'w \<Rightarrow> 'h option outcome \<times> 'w"
  Invoke :: "'h \<Rightarrow> 'h \<Rightarrow> goval list \<Rightarrow> 'w \<Rightarrow> (goval list option \<times> goerror option) outcome \<times> 'w"

text \<open>
  \<^verbatim>\<open>make([]interface{}, len(returns))\<close> filled by the copying loop: a non-nil slice with
  the elements of \<^verbatim>\<open>returns\<close>.
\<close>

definition copy_values :: "goval list option \<Rightarrow> goval list option" where
  "copy_values returns = Some (case returns of None \<Rightarrow> [] | Some vs \<Rightarrow> vs)"

definition processWasmFile_body ::
  "('w, 'h) wasmedge \<Rightarrow> string \<Rightarrow> 'w frame \<Rightarrow> 'w frame" where
  "processWasmFile_body sdk filePath =
     go_assign (\<lambda>r. r\<lparr>FilePath := filePath\<rparr>) (
     go_assign (\<lambda>r. r\<lparr>FileName := filepath_Base filePath\<rparr>) (
     go_assign (\<lambda>r. r\<lparr>FailureStage := StageNone\<rparr>) (
     go_defer DeferRecover (
     go_call ''NewConfigure'' (NewConfigure sdk) (\<lambda>conf.
     go_defer (DeferCall ''conf.Release'' (Configure_Release sdk conf)) (
     go_call ''NewLoader'' (NewLoader sdk) (\<lambda>loader.
     go_defer (DeferCall ''loader.Release'' (Loader_Release sdk loader)) (
     go_call ''LoadFile'' (LoadFile sdk loader filePath) (\<lambda>(ast, err).
     case err of
       Some e \<Rightarrow>
         go_assign (\<lambda>r. r\<lparr>Success := False\<rparr>) (
         go_assign (\<lambda>r. r\<lparr>FailureStage := StageLoad\<rparr>) (
         go_assign (\<lambda>r. r\<lparr>ErrorMessage := ''load failed: '' @ fmt_v e\<rparr>) (
         go_return)))
     | None \<Rightarrow>
     go_defer (DeferCall ''ast.Release'' (AST_Release sdk ast)) (
     go_call ''NewValidator'' (NewValidator sdk) (\<lambda>validator.
     go_defer (DeferCall ''validator.Release'' (Validator_Release sdk validator)) (
     go_call ''Validate'' (Validate sdk validator ast) (\<lambda>err.
     case err of
       Some e \<Rightarrow>
         go_assign (\<lambda>r. r\<lparr>Success := False\<rparr>) (
         go_assign (\<lambda>r. r\<lparr>FailureStage := StageValidate\<rparr>) (
         go_assign (\<lambda>r. r\<lparr>ErrorMessage := ''validation failed: '' @ fmt_v e\<rparr>) (
         go_return)))
     | None \<Rightarrow>
     go_call ''NewStore'' (NewStore sdk) (\<lambda>store.
     go_defer (DeferCall ''store.Release'' (Store_Release sdk store)) (
     go_call ''NewExecutor'' (NewExecutor sdk) (\<lambda>executor.
     go_defer (DeferCall ''executor.Release'' (Executor_Release sdk executor)) (
     go_call ''Instantiate'' (Instantiate sdk executor store ast) (\<lambda>(module, err).
     case err of
       Some e \<Rightarrow>
         go_assign (\<lambda>r. r\<lparr>Success := False\<rparr>) (
         go_assign (\<lambda>r. r\<lparr>FailureStage := StageInstantiate\<rparr>) (
         go_assign (\<lambda>r. r\<lparr>ErrorMessage := ''instantiation failed: '' @ fmt_v e\<rparr>) (
         go_return)))
     | None \<Rightarrow>
     go_defer (DeferCall ''module.Release'' (Module_Release sdk module)) (
     go_call ''FindFunction'' (FindFunction sdk module ''process'') (\<lambda>funcInstance.
     case funcInstance of
       None \<Rightarrow>
         go_assign (\<lambda>r. r\<lparr>Success := False\<rparr>) (
         go_assign (\<lambda>r. r\<lparr>FailureStage := StageExecute\<rparr>) (
         go_assign (\<lambda>r. r\<lparr>ErrorMessage :=
                            ''function '' @ [CHR 0x27] @ ''process'' @ [CHR 0x27] @
                            '' not found in module exports''\<rparr>) (
         go_return)))
     | Some f \<Rightarrow>
     go_call ''Invoke'' (Invoke sdk executor f [GoInt32 1]) (\<lambda>(returns, err).
     case err of
       Some e \<Rightarrow>
         go_assign (\<lambda>r. r\<lparr>Success := False\<rparr>) (
         go_assign (\<lambda>r. r\<lparr>FailureStage := StageExecute\<rparr>) (
         go_assign (\<lambda>r. r\<lparr>ErrorMessage := ''execution failed: '' @ fmt_v e\<rparr>) (
         go_return)))
     | None \<Rightarrow>
         go_assign (\<lambda>r. r\<lparr>Success := True\<rparr>) (
         go_assign (\<lambda>r. r\<lparr>ReturnValues := copy_values returns\<rparr>) (
         go_return)))))))))))))))))))))))"

definition processWasmFile ::
  "('w, 'h) wasmedge \<Rightarrow> string \<Rightarrow> 'w \<Rightarrow> ExecutionResult outcome \<times> 'w \<times> event list" where
  "processWasmFile sdk filePath w = leave (processWasmFile_body sdk filePath (enter w))"

section \<open>Test doubles (the fault injection tests)\<close>

text \<open>
  \<^verbatim>\<open>MockWasmModule\<close> and \<^verbatim>\<open>MockWasmRuntime\<close>: the behaviour of a call is the function
  field of the double when it is set (\<open>Some f\<close>) and a success otherwise; the world is
  the flag \<^verbatim>\<open>CloseCalled\<close>.
\<close>

definition MockWasmModule ::
  "(string \<Rightarrow> goval list \<Rightarrow> (goval list option \<times> goerror option) outcome) option \<Rightarrow>
   bool WasmModule" where
  "MockWasmModule ExecuteFunc =
     \<lparr>Execute = (\<lambda>funcName args w.
        (case ExecuteFunc of
           Some f \<Rightarrow> f funcName args
         | None \<Rightarrow> Returns (Some [GoInt32 42], None), w)),
      Close = (\<lambda>w. (Completes, True))\<rparr>"

definition MockWasmRuntime ::
  "(string \<Rightarrow> (bool WasmModule option \<times> goerror option) outcome) option \<Rightarrow>
   bool WasmRuntime" where
  "MockWasmRuntime LoadModuleFunc =
     \<lparr>LoadModule = (\<lambda>filePath w.
        (case LoadModuleFunc of
           Some f \<Rightarrow> f filePath
         | None \<Rightarrow> Returns (Some (MockWasmModule None), None), w))\<rparr>"

text \<open>
  A double of the SDK in which every call returns: objects are numbered, the world
  counts the releases, and the outcome of \<^verbatim>\<open>Invoke\<close> is a parameter.
\<close>

definition StubWasmEdge ::
  "(goval list option \<times> goerror option) outcome \<Rightarrow> (nat, nat) wasmedge" where
  "StubWasmEdge invoked =
     \<lparr>NewConfigure = (\<lambda>w. (Returns 1, w)),
      Configure_Release = (\<lambda>h w. (Completes, Suc w)),
      NewLoader = (\<lambda>w. (Returns 2, w)),
      Loader_Release = (\<lambda>h w. (Completes, Suc w)),
      LoadFile = (\<lambda>h path w. (Returns (3, None), w)),
      AST_Release = (\<lambda>h w. (Completes, Suc w)),
      NewValidator = (\<lambda>w. (Returns 4, w)),
      Validator_Release = (\<lambda>h w. (Completes, Suc w)),
      Validate = (\<lambda>h ast w. (Returns None, w)),
      NewStore = (\<lambda>w. (Returns 5, w)),
      Store_Release = (\<lambda>h w. (Completes, Suc w)),
      NewExecutor = (\<lambda>w. (Returns 6, w)),
      Executor_Release = (\<lambda>h w. (Completes, Suc w)),
      Instantiate = (\<lambda>h store ast w. (Returns (7, None), w)),
      Module_Release = (\<lambda>h w. (Completes, Suc w)),
      FindFunction = (\<lambda>h name w. (Returns (Some 8), w)),
      Invoke = (\<lambda>h f args w. (invoked, w))\<rparr>"

text \<open>
  A listing with a module, a document, a directory named like a module and a second
  module; a join that puts a separator between its arguments; and a runtime that fails
  to load the empty file and runs every other module.
\<close>

definition corpus_ReadDir :: "string \<Rightarrow> bool \<Rightarrow> DirEntry list \<times> goerror option" where
  "corpus_ReadDir dirPath w =
     ([\<lparr>Name = ''01_valid_module.wasm'', IsDir = False\<rparr>,
       \<lparr>Name = ''README.md'', IsDir = False\<rparr>,
       \<lparr>Name = ''old.wasm'', IsDir = True\<rparr>,
       \<lparr>Name = ''02_empty_file.wasm'', IsDir = False\<rparr>], None)"

definition slash_Join :: "string \<Rightarrow> string \<Rightarrow> string" where
  "slash_Join dirPath name = dirPath @ ''/'' @ name"

definition corpus_runtime :: "bool WasmRuntime" where
  "corpus_runtime =
     MockWasmRuntime (Some (\<lambda>filePath.
       if filePath = ''corpus/02_empty_file.wasm''
       then Returns (None, Some (RuntimeErrorPtr (Some
              (RuntimeError StageLoad ''unexpected end of file'' None))))
       else Returns (Some (MockWasmModule (Some (\<lambda>funcName args.
              Returns (Some [GoInt32 2], None)))), None)))"

text \<open>
  The doubles of \<^verbatim>\<open>TestResourceCleanup_OnPanic\<close>: a module whose \<^verbatim>\<open>Execute\<close> panics.
\<close>

definition panic_module :: "bool WasmModule" where
  "panic_module = MockWasmModule (Some (\<lambda>funcName args. Panics ''test panic''))"

definition panic_runtime :: "bool WasmRuntime" where
  "panic_runtime = MockWasmRuntime (Some (\<lambda>filePath. Returns (Some panic_module, None)))"

text \<open>
  Doubles of the load tests: a runtime whose error is a nil \<^verbatim>\<open>*RuntimeError\<close>, ones
  whose tagged error carries a given stage or an empty message, the module of the
  success path, and a runtime that returns a module together with an error.
\<close>

definition nil_pointer_runtime :: "bool WasmRuntime" where
  "nil_pointer_runtime =
     MockWasmRuntime (Some (\<lambda>filePath. Returns (None, Some (RuntimeErrorPtr None))))"

definition validate_error_runtime :: "bool WasmRuntime" where
  "validate_error_runtime =
     MockWasmRuntime (Some (\<lambda>filePath. Returns (None, Some (RuntimeErrorPtr (Some
       (RuntimeError StageValidate ''unknown opcode 0xFE'' None))))))"


definition empty_message_runtime :: "bool WasmRuntime" where
  "empty_message_runtime =
     MockWasmRuntime (Some (\<lambda>filePath. Returns (None, Some (RuntimeErrorPtr (Some
       (RuntimeError StageLoad [] None))))))"

definition answer_module :: "bool WasmModule" where
  "answer_module = MockWasmModule None"

definition answer_runtime :: "bool WasmRuntime" where
  "answer_runtime = MockWasmRuntime (Some (\<lambda>filePath. Returns (Some answer_module, None)))"

definition handle_and_error_runtime :: "bool WasmRuntime" where
  "handle_and_error_runtime =
     MockWasmRuntime (Some (\<lambda>filePath. Returns (Some answer_module,
       Some (PlainError ''read error: permission denied''))))"

text \<open>
  Modules whose \<^verbatim>\<open>Close\<close> does more than set the flag: one whose \<^verbatim>\<open>Execute\<close> panics
  and whose \<^verbatim>\<open>Close\<close> calls \<^verbatim>\<open>recover()\<close>, one whose \<^verbatim>\<open>Execute\<close> returns a value and
  whose \<^verbatim>\<open>Close\<close> panics, and one whose \<^verbatim>\<open>Execute\<close> returns no value and no error.
\<close>

definition swallowing_module :: "bool WasmModule" where
  "swallowing_module =
     \<lparr>Execute = (\<lambda>funcName args w. (Panics ''test panic'', w)),
      Close = (\<lambda>w. (Recovers, True))\<rparr>"

definition swallowing_runtime :: "bool WasmRuntime" where
  "swallowing_runtime =
     MockWasmRuntime (Some (\<lambda>filePath. Returns (Some swallowing_module, None)))"

definition close_panic_module :: "bool WasmModule" where
  "close_panic_module =
     \<lparr>Execute = (\<lambda>funcName args w. (Returns (Some [GoInt32 42], None), w)),
      Close = (\<lambda>w. (Raises ''close panic'', True))\<rparr>"

definition close_panic_runtime :: "bool WasmRuntime" where
  "close_panic_runtime =
     MockWasmRuntime (Some (\<lambda>filePath. Returns (Some close_panic_module, None)))"

definition void_module :: "bool WasmModule" where
  "void_module = MockWasmModule (Some (\<lambda>funcName args. Returns (None, None)))"

definition void_runtime :: "bool WasmRuntime" where
  "void_runtime = MockWasmRuntime (Some (\<lambda>filePath. Returns (Some void_module, None)))"

text \<open>A listing collaborator that fails.\<close>

definition denied_ReadDir :: "string \<Rightarrow> bool \<Rightarrow> DirEntry list \<times> goerror option" where
  "denied_ReadDir dirPath w = ([], Some (PlainError ''open corpus: permission denied''))"

section \<open>Notions used in the proofs\<close>

text \<open>
  The log and the panic in flight agree: the processor's closure recovered nothing yet,
  and the panic in flight is the one the log leaves.
\<close>

definition in_flight :: "'w frame \<Rightarrow> bool" where
  "in_flight fr = (recoveries_of (trace fr) = [] \<and> panicking fr = pending (trace fr))"

text \<open>What the recovery closure writes for a panic value.\<close>

definition recovered_result :: "string \<Rightarrow> ExecutionResult \<Rightarrow> ExecutionResult" where
  "recovered_result v r =
     r\<lparr>Success := False, FailureStage := StageExecute,
       ErrorMessage := ''panic recovered: '' @ v\<rparr>"

text \<open>The count a report holds for a stage, zero where the key is missing.\<close>

definition count_of :: "(FailureStage \<rightharpoonup> int) \<Rightarrow> FailureStage \<Rightarrow> int" where
  "count_of counts stage = (case counts stage of None \<Rightarrow> 0 | Some n \<Rightarrow> n)"

section \<open>Deferred functions and recovery\<close>

lemmas go_defs =
  leave_def enter_def go_assign_def go_defer_def go_call_def go_panic_def go_return_def
  recovery_def zero_ExecutionResult_def

lemmas rt_defs = processWasmFileWithRuntime_def processWasmFileWithRuntime_body_def go_defs

lemmas stage_defs =
  StageNone_def StageLoad_def StageValidate_def StageInstantiate_def StageExecute_def

lemma calls_of_append: "calls_of (tr @ tr') = calls_of tr @ calls_of tr'"
  by (induction tr rule: calls_of.induct) simp_all

lemma panics_of_append: "panics_of (tr @ tr') = panics_of tr @ panics_of tr'"
  by (induction tr rule: panics_of.induct) simp_all

lemma recoveries_of_append: "recoveries_of (tr @ tr') = recoveries_of tr @ recoveries_of tr'"
  by (induction tr rule: recoveries_of.induct) simp_all

lemma unwind_append: "unwind (ds @ ds') fr = unwind ds' (unwind ds fr)"
  by (induction ds arbitrary: fr) simp_all


lemma stops_of_append: "stops_of (tr @ tr') = stops_of tr @ stops_of tr'"
  by (induction tr rule: stops_of.induct) simp_all

lemma in_flight_after_append:
  "in_flight_after p (tr @ tr') = in_flight_after (in_flight_after p tr) tr'"
  by (induction p tr rule: in_flight_after.induct) simp_all

text \<open>
  Without a stop and without a recovery, the panic in flight is the last one raised;
  and a panic can only cease to be in flight by a stop or a recovery.
\<close>

lemma in_flight_after_last:
  assumes "stops_of tr = []" and "recoveries_of tr = []"
  shows "in_flight_after p tr = (if panics_of tr = [] then p else Some (last (panics_of tr)))"
  using assms by (induction p tr rule: in_flight_after.induct) simp_all

lemma in_flight_after_stopped:
  assumes "in_flight_after (Some v) tr = None" and "recoveries_of tr = []"
  shows "stops_of tr \<noteq> []"
proof (rule ccontr)
  assume "\<not> stops_of tr \<noteq> []"
  then have "stops_of tr = []" by simp
  from in_flight_after_last [OF this assms(2), of "Some v"] assms(1) show False
    by (simp split: if_splits)
qed

text \<open>A deferred call keeps the result and the agreement of log and panic.\<close>

lemma run_deferred_call:
  assumes "d \<noteq> DeferRecover" and "in_flight fr"
  shows "in_flight (run_deferred d fr) \<and> result (run_deferred d fr) = result fr \<and>
         (\<exists>tr'. trace (run_deferred d fr) = trace fr @ tr')"
  using assms
  by (cases d)
     (auto simp: in_flight_def pending_def in_flight_after_append recoveries_of_append
           split: prod.splits deferred_outcome.splits option.splits)

lemma unwind_calls:
  assumes "DeferRecover \<notin> set ds" and "in_flight fr"
  shows "in_flight (unwind ds fr) \<and> result (unwind ds fr) = result fr \<and>
         (\<exists>tr'. trace (unwind ds fr) = trace fr @ tr')"
  using assms
proof (induction ds arbitrary: fr)
  case Nil
  then show ?case by simp
next
  case (Cons d ds)
  from Cons.prems have d: "d \<noteq> DeferRecover" and ds: "DeferRecover \<notin> set ds" by auto
  from run_deferred_call [OF d Cons.prems(2)]
  obtain tr1 where 1: "in_flight (run_deferred d fr)" "result (run_deferred d fr) = result fr"
    "trace (run_deferred d fr) = trace fr @ tr1" by blast
  from Cons.IH [OF ds 1(1)] obtain tr2 where 2: "in_flight (unwind ds (run_deferred d fr))"
    "result (unwind ds (run_deferred d fr)) = result (run_deferred d fr)"
    "trace (unwind ds (run_deferred d fr)) = trace (run_deferred d fr) @ tr2" by blast
  from 1 2 show ?case by simp
qed

text \<open>
  A function whose first deferred function is the recovery closure, and whose other
  deferred functions are calls, returns to its caller. Let \<open>tr0\<close> be the log when the
  closure starts: if it leaves no panic in flight, the result is as the body left it;
  if it leaves one, the closure recovers it and writes its three fields.
\<close>

lemma leave_recovers:
  assumes shape: "defers fr \<noteq> []" "last (defers fr) = DeferRecover"
    "DeferRecover \<notin> set (butlast (defers fr))"
    and fl: "in_flight fr"
    and lv: "leave fr = (out, w', tr)"
  shows "\<exists>tr' tr0. tr0 = trace fr @ tr' \<and> recoveries_of tr0 = [] \<and>
           tr = tr0 @ (case pending tr0 of None \<Rightarrow> [] | Some v \<Rightarrow> [Recovered v]) \<and>
           out = Returns (case pending tr0 of None \<Rightarrow> result fr
                          | Some v \<Rightarrow> recovered_result v (result fr))"
proof -
  define ds where "ds = butlast (defers fr)"
  have split: "defers fr = ds @ [DeferRecover]"
    using shape(1,2) unfolding ds_def by (metis append_butlast_last_id)
  have nr: "DeferRecover \<notin> set ds" using shape(3) by (simp add: ds_def)
  from unwind_calls [OF nr fl] obtain tr' where
    u: "in_flight (unwind ds fr)" "result (unwind ds fr) = result fr"
       "trace (unwind ds fr) = trace fr @ tr'" by blast
  have un: "unwind (defers fr) fr = recovery (unwind ds fr)"
    by (simp add: split unwind_append)
  from u(1) have p: "panicking (unwind ds fr) = pending (trace fr @ tr')"
    and nrec: "recoveries_of (trace fr @ tr') = []"
    by (simp_all add: in_flight_def u(3))
  show ?thesis
  proof (cases "pending (trace fr @ tr')")
    case None
    with p lv un have "out = Returns (result fr)" "tr = trace fr @ tr'"
      by (simp_all add: leave_def Let_def recovery_def u(2,3))
    with None nrec show ?thesis
      by (intro exI [of _ tr'] exI [of _ "trace fr @ tr'"]) simp
  next
    case (Some v)
    with p lv un have "out = Returns (recovered_result v (result fr))"
      "tr = (trace fr @ tr') @ [Recovered v]"
      by (simp_all add: leave_def Let_def recovery_def recovered_result_def u(2,3))
    with Some nrec show ?thesis
      by (intro exI [of _ tr'] exI [of _ "trace fr @ tr'"]) simp
  qed
qed

text \<open>What follows for the log and the result of such a function.\<close>

lemma recovered_log:
  assumes "recoveries_of tr0 = []"
    and "tr = tr0 @ (case pending tr0 of None \<Rightarrow> [] | Some v \<Rightarrow> [Recovered v])"
  shows "recoveries_of tr = (case pending tr0 of None \<Rightarrow> [] | Some v \<Rightarrow> [v])"
    and "panics_of tr = panics_of tr0" and "stops_of tr = stops_of tr0"
    and "pending tr = None"
    and "panics_of tr \<noteq> [] \<and> stops_of tr = [] \<longrightarrow>
           pending tr0 = Some (last (panics_of tr))"
  using assms in_flight_after_last [of tr0 None]
  by (auto simp: recoveries_of_append panics_of_append stops_of_append pending_def
        in_flight_after_append split: option.splits)

section \<open>The processor over the SDK: what its body leaves\<close>

lemma sdk_body_shape:
  "defers (processWasmFile_body sdk filePath (enter w)) \<noteq> [] \<and>
   last (defers (processWasmFile_body sdk filePath (enter w))) = DeferRecover \<and>
   DeferRecover \<notin> set (butlast (defers (processWasmFile_body sdk filePath (enter w))))"
  by (simp add: processWasmFile_body_def go_defs split: prod.splits outcome.splits option.splits)

lemma sdk_body_in_flight: "in_flight (processWasmFile_body sdk filePath (enter w))"
  by (simp add: processWasmFile_body_def go_defs in_flight_def pending_def
           split: prod.splits outcome.splits option.splits)

lemma sdk_body_result:
  "FilePath (result (processWasmFile_body sdk filePath (enter w))) = filePath \<and>
   FileName (result (processWasmFile_body sdk filePath (enter w))) = filepath_Base filePath \<and>
   (panicking (processWasmFile_body sdk filePath (enter w)) = None \<longrightarrow>
      (Success (result (processWasmFile_body sdk filePath (enter w))) \<longleftrightarrow>
       FailureStage (result (processWasmFile_body sdk filePath (enter w))) = StageNone)) \<and>
   (panicking (processWasmFile_body sdk filePath (enter w)) \<noteq> None \<longrightarrow>
      \<not> Success (result (processWasmFile_body sdk filePath (enter w))))"
  by (simp add: processWasmFile_body_def go_defs stage_defs
           split: prod.splits outcome.splits option.splits)

text \<open>A panic of a call of the SDK is in the log right after the call.\<close>

lemma sdk_body_NewConfigure_panic:
  assumes "NewConfigure sdk w = (Panics v, w1)"
  shows "trace (processWasmFile_body sdk filePath (enter w)) =
     [Called ''NewConfigure'', Panicked v]"
  using assms by (simp add: processWasmFile_body_def go_defs)

lemma sdk_body_NewLoader_panic:
  assumes "NewConfigure sdk w = (Returns conf, w1)"
    and "NewLoader sdk w1 = (Panics v, w2)"
  shows "trace (processWasmFile_body sdk filePath (enter w)) =
     [Called ''NewConfigure'', Called ''NewLoader'', Panicked v]"
  using assms by (simp add: processWasmFile_body_def go_defs)

lemma sdk_body_LoadFile_panic:
  assumes "NewConfigure sdk w = (Returns conf, w1)"
    and "NewLoader sdk w1 = (Returns loader, w2)"
    and "LoadFile sdk loader filePath w2 = (Panics v, w3)"
  shows "trace (processWasmFile_body sdk filePath (enter w)) =
     [Called ''NewConfigure'', Called ''NewLoader'', Called ''LoadFile'',
      Panicked v]"
  using assms by (simp add: processWasmFile_body_def go_defs)

lemma sdk_body_NewValidator_panic:
  assumes "NewConfigure sdk w = (Returns conf, w1)"
    and "NewLoader sdk w1 = (Returns loader, w2)"
    and "LoadFile sdk loader filePath w2 = (Returns (ast, None), w3)"
    and "NewValidator sdk w3 = (Panics v, w4)"
  shows "trace (processWasmFile_body sdk filePath (enter w)) =
     [Called ''NewConfigure'', Called ''NewLoader'', Called ''LoadFile'',
      Called ''NewValidator'', Panicked v]"
  using assms by (simp add: processWasmFile_body_def go_defs)

lemma sdk_body_Validate_panic:
  assumes "NewConfigure sdk w = (Returns conf, w1)"
    and "NewLoader sdk w1 = (Returns loader, w2)"
    and "LoadFile sdk loader filePath w2 = (Returns (ast, None), w3)"
    and "NewValidator sdk w3 = (Returns validator, w4)"
    and "Validate sdk validator ast w4 = (Panics v, w5)"
  shows "trace (processWasmFile_body sdk filePath (enter w)) =
     [Called ''NewConfigure'', Called ''NewLoader'', Called ''LoadFile'',
      Called ''NewValidator'', Called ''Validate'', Panicked v]"
  using assms by (simp add: processWasmFile_body_def go_defs)

lemma sdk_body_NewStore_panic:
  assumes "NewConfigure sdk w = (Returns conf, w1)"
    and "NewLoader sdk w1 = (Returns loader, w2)"
    and "LoadFile sdk loader filePath w2 = (Returns (ast, None), w3)"
    and "NewValidator sdk w3 = (Returns validator, w4)"
    and "Validate sdk validator ast w4 = (Returns None, w5)"
    and "NewStore sdk w5 = (Panics v, w6)"
  shows "trace (processWasmFile_body sdk filePath (enter w)) =
     [Called ''NewConfigure'', Called ''NewLoader'', Called ''LoadFile'',
      Called ''NewValidator'', Called ''Validate'', Called ''NewStore'',
      Panicked v]"
  using assms by (simp add: processWasmFile_body_def go_defs)

lemma sdk_body_NewExecutor_panic:
  assumes "NewConfigure sdk w = (Returns conf, w1)"
    and "NewLoader sdk w1 = (Returns loader, w2)"
    and "LoadFile sdk loader filePath w2 = (Returns (ast, None), w3)"
    and "NewValidator sdk w3 = (Returns validator, w4)"
    and "Validate sdk validator ast w4 = (Returns None, w5)"
    and "NewStore sdk w5 = (Returns store, w6)"
    and "NewExecutor sdk w6 = (Panics v, w7)"
  shows "trace (processWasmFile_body sdk filePath (enter w)) =
     [Called ''NewConfigure'', Called ''NewLoader'', Called ''LoadFile'',
      Called ''NewValidator'', Called ''Validate'', Called ''NewStore'',
      Called ''NewExecutor'', Panicked v]"
  using assms by (simp add: processWasmFile_body_def go_defs)

lemma sdk_body_Instantiate_panic:
  assumes "NewConfigure sdk w = (Returns conf, w1)"
    and "NewLoader sdk w1 = (Returns loader, w2)"
    and "LoadFile sdk loader filePath w2 = (Returns (ast, None), w3)"
    and "NewValidator sdk w3 = (Returns validator, w4)"
    and "Validate sdk validator ast w4 = (Returns None, w5)"
    and "NewStore sdk w5 = (Returns store, w6)"
    and "NewExecutor sdk w6 = (Returns executor, w7)"
    and "Instantiate sdk executor store ast w7 = (Panics v, w8)"
  shows "trace (processWasmFile_body sdk filePath (enter w)) =
     [Called ''NewConfigure'', Called ''NewLoader'', Called ''LoadFile'',
      Called ''NewValidator'', Called ''Validate'', Called ''NewStore'',
      Called ''NewExecutor'', Called ''Instantiate'', Panicked v]"
  using assms by (simp add: processWasmFile_body_def go_defs)

lemma sdk_body_FindFunction_panic:
  assumes "NewConfigure sdk w = (Returns conf, w1)"
    and "NewLoader sdk w1 = (Returns loader, w2)"
    and "LoadFile sdk loader filePath w2 = (Returns (ast, None), w3)"
    and "NewValidator sdk w3 = (Returns validator, w4)"
    and "Validate sdk validator ast w4 = (Returns None, w5)"
    and "NewStore sdk w5 = (Returns store, w6)"
    and "NewExecutor sdk w6 = (Returns executor, w7)"
    and "Instantiate sdk executor store ast w7 = (Returns (module, None), w8)"
    and "FindFunction sdk module ''process'' w8 = (Panics v, w9)"
  shows "trace (processWasmFile_body sdk filePath (enter w)) =
     [Called ''NewConfigure'', Called ''NewLoader'', Called ''LoadFile'',
      Called ''NewValidator'', Called ''Validate'', Called ''NewStore'',
      Called ''NewExecutor'', Called ''Instantiate'',
      Called ''FindFunction'', Panicked v]"
  using assms by (simp add: processWasmFile_body_def go_defs)

lemma sdk_body_Invoke_panic:
  assumes "NewConfigure sdk w = (Returns conf, w1)"
    and "NewLoader sdk w1 = (Returns loader, w2)"
    and "LoadFile sdk loader filePath w2 = (Returns (ast, None), w3)"
    and "NewValidator sdk w3 = (Returns validator, w4)"
    and "Validate sdk validator ast w4 = (Returns None, w5)"
    and "NewStore sdk w5 = (Returns store, w6)"
    and "NewExecutor sdk w6 = (Returns executor, w7)"
    and "Instantiate sdk executor store ast w7 = (Returns (module, None), w8)"
    and "FindFunction sdk module ''process'' w8 = (Returns (Some f), w9)"
    and "Invoke sdk executor f [GoInt32 1] w9 = (Panics v, w10)"
  shows "trace (processWasmFile_body sdk filePath (enter w)) =
     [Called ''NewConfigure'', Called ''NewLoader'', Called ''LoadFile'',
      Called ''NewValidator'', Called ''Validate'', Called ''NewStore'',
      Called ''NewExecutor'', Called ''Instantiate'',
      Called ''FindFunction'', Called ''Invoke'', Panicked v]"
  using assms by (simp add: processWasmFile_body_def go_defs)

lemma sdk_returns:
  assumes "processWasmFile sdk filePath w = (out, w', tr)"
  shows "\<exists>r. out = Returns r \<and>
      FilePath r = filePath \<and> FileName r = filepath_Base filePath \<and>
      length (recoveries_of tr) \<le> 1 \<and>
      (\<forall>v. recoveries_of tr = [v] \<longrightarrow> \<not> Success r \<and> FailureStage r = StageExecute \<and>
         ErrorMessage r = ''panic recovered: '' @ v) \<and>
      (panics_of tr \<noteq> [] \<and> stops_of tr = [] \<longrightarrow> recoveries_of tr = [last (panics_of tr)]) \<and>
      (Success r \<longrightarrow> FailureStage r = StageNone) \<and>
      (FailureStage r = StageNone \<and> \<not> Success r \<longrightarrow> stops_of tr \<noteq> []) \<and>
      (\<exists>tr'. tr = trace (processWasmFile_body sdk filePath (enter w)) @ tr')"
proof -
  let ?fr = "processWasmFile_body sdk filePath (enter w)"
  from assms have lv: "leave ?fr = (out, w', tr)" by (simp add: processWasmFile_def)
  from sdk_body_shape [of sdk filePath w]
  have sh: "defers ?fr \<noteq> []" "last (defers ?fr) = DeferRecover"
    "DeferRecover \<notin> set (butlast (defers ?fr))" by simp_all
  from leave_recovers [OF sh sdk_body_in_flight lv] obtain tr' tr0 where
    L: "tr0 = trace ?fr @ tr'" "recoveries_of tr0 = []"
       "tr = tr0 @ (case pending tr0 of None \<Rightarrow> [] | Some v \<Rightarrow> [Recovered v])"
       "out = Returns (case pending tr0 of None \<Rightarrow> result ?fr
                          | Some v \<Rightarrow> recovered_result v (result ?fr))"
    by blast
  note G = recovered_log [OF L(2,3)]
  note R = sdk_body_result [of sdk filePath w]
  have ext: "\<exists>tr''. tr = trace ?fr @ tr''" using L(1,3) by simp
  show ?thesis
  proof (cases "pending tr0")
    case (Some v)
    with L(4) G R ext show ?thesis by (simp add: recovered_result_def stage_defs)
  next
    case None
    have out: "out = Returns (result ?fr)" using L(4) None by simp
    have rec: "recoveries_of tr = []" using G(1) None by simp
    have gen: "panics_of tr \<noteq> [] \<and> stops_of tr = [] \<longrightarrow>
        recoveries_of tr = [last (panics_of tr)]"
      using G(5) None by auto
    have st: "FailureStage (result ?fr) = StageNone \<and> \<not> Success (result ?fr) \<longrightarrow>
        stops_of tr \<noteq> []"
    proof (intro impI)
      assume a: "FailureStage (result ?fr) = StageNone \<and> \<not> Success (result ?fr)"
      with R have "panicking ?fr \<noteq> None" by auto
      then obtain v where v: "panicking ?fr = Some v" by auto
      with sdk_body_in_flight [of sdk filePath w] have pf: "pending (trace ?fr) = Some v"
        and r0: "recoveries_of (trace ?fr) = []"
        by (simp_all add: in_flight_def)
      from None L(1) pf have "in_flight_after (Some v) tr' = None"
        by (simp add: pending_def in_flight_after_append)
      moreover from L(1,2) have "recoveries_of tr' = []" by (simp add: recoveries_of_append)
      ultimately have "stops_of tr' \<noteq> []" by (rule in_flight_after_stopped)
      with G(3) L(1) show "stops_of tr \<noteq> []" by (simp add: stops_of_append)
    qed
    have su: "Success (result ?fr) \<longrightarrow> FailureStage (result ?fr) = StageNone"
      using R by (cases "panicking ?fr") auto
    from out rec gen st su R ext show ?thesis by simp
  qed
qed

section \<open>The processor over the runtime boundary: it always returns\<close>

lemma rt_returns_aux:
  assumes "processWasmFileWithRuntime filePath runtime w = (out, w', tr)"
  shows "\<exists>r. out = Returns r \<and>
      FilePath r = filePath \<and> FileName r = filepath_Base filePath \<and>
      length (recoveries_of tr) \<le> 1 \<and>
      (\<forall>v. recoveries_of tr = [v] \<longrightarrow> \<not> Success r \<and> FailureStage r = StageExecute \<and>
         ErrorMessage r = ''panic recovered: '' @ v) \<and>
      (panics_of tr \<noteq> [] \<and> stops_of tr = [] \<longrightarrow> recoveries_of tr = [last (panics_of tr)]) \<and>
      (\<forall>v w1. LoadModule runtime filePath w = (Panics v, w1) \<longrightarrow> recoveries_of tr = [v]) \<and>
      (\<forall>w1. LoadModule runtime filePath w = (Returns (None, None), w1) \<longrightarrow>
          recoveries_of tr = [nil_dereference]) \<and>
      (\<forall>m w1 v w2 c w3. LoadModule runtime filePath w = (Returns (Some m, None), w1) \<and>
          Execute m ''process'' [GoInt32 1] w1 = (Panics v, w2) \<and> Close m w2 = (c, w3) \<longrightarrow>
          (case c of
             Completes \<Rightarrow> recoveries_of tr = [v]
           | Raises v' \<Rightarrow> recoveries_of tr = [v']
           | Recovers \<Rightarrow> recoveries_of tr = [] \<and> stops_of tr = [v] \<and> \<not> Success r \<and>
               FailureStage r = StageNone \<and> ErrorMessage r = [])) \<and>
      (\<forall>m w1 x w2 v w3. LoadModule runtime filePath w = (Returns (Some m, None), w1) \<and>
          Execute m ''process'' [GoInt32 1] w1 = (x, w2) \<and> Close m w2 = (Raises v, w3) \<longrightarrow>
          recoveries_of tr = [v])"
  using assms
  by (auto simp add: rt_defs
        split: prod.splits outcome.splits option.splits deferred_outcome.splits)

lemma rt_returns:
  "\<exists>r w' tr. processWasmFileWithRuntime filePath runtime w = (Returns r, w', tr) \<and>
      FilePath r = filePath \<and> FileName r = filepath_Base filePath"
proof -
  obtain out w' tr where eq: "processWasmFileWithRuntime filePath runtime w = (out, w', tr)"
    by (cases "processWasmFileWithRuntime filePath runtime w") auto
  from rt_returns_aux [OF eq] eq show ?thesis by blast
qed


lemma sdk_recovers:
  "\<exists>r w' tr. processWasmFile sdk filePath w = (Returns r, w', tr) \<and>
      FilePath r = filePath \<and> FileName r = filepath_Base filePath \<and>
      length (recoveries_of tr) \<le> 1 \<and>
      (\<forall>v. recoveries_of tr = [v] \<longrightarrow> \<not> Success r \<and> FailureStage r = StageExecute \<and>
         ErrorMessage r = ''panic recovered: '' @ v) \<and>
      (panics_of tr \<noteq> [] \<and> stops_of tr = [] \<longrightarrow> recoveries_of tr = [last (panics_of tr)]) \<and>
      (\<forall>v w1.
          NewConfigure sdk w = (Panics v, w1) \<longrightarrow>
          (\<exists>tr'. tr = [Called ''NewConfigure'', Panicked v] @ tr')) \<and>
      (\<forall>conf w1 v w2.
          NewConfigure sdk w = (Returns conf, w1) \<and>
          NewLoader sdk w1 = (Panics v, w2) \<longrightarrow>
          (\<exists>tr'. tr = [Called ''NewConfigure'', Called ''NewLoader'', Panicked v] @ tr')) \<and>
      (\<forall>conf w1 loader w2 v w3.
          NewConfigure sdk w = (Returns conf, w1) \<and>
          NewLoader sdk w1 = (Returns loader, w2) \<and>
          LoadFile sdk loader filePath w2 = (Panics v, w3) \<longrightarrow>
          (\<exists>tr'. tr = [Called ''NewConfigure'', Called ''NewLoader'', Called ''LoadFile'',
                           Panicked v] @ tr')) \<and>
      (\<forall>conf w1 loader w2 ast w3 v w4.
          NewConfigure sdk w = (Returns conf, w1) \<and>
          NewLoader sdk w1 = (Returns loader, w2) \<and>
          LoadFile sdk loader filePath w2 = (Returns (ast, None), w3) \<and>
          NewValidator sdk w3 = (Panics v, w4) \<longrightarrow>
          (\<exists>tr'. tr = [Called ''NewConfigure'', Called ''NewLoader'', Called ''LoadFile'',
                           Called ''NewValidator'', Panicked v] @ tr')) \<and>
      (\<forall>conf w1 loader w2 ast w3 validator w4 v w5.
          NewConfigure sdk w = (Returns conf, w1) \<and>
          NewLoader sdk w1 = (Returns loader, w2) \<and>
          LoadFile sdk loader filePath w2 = (Returns (ast, None), w3) \<and>
          NewValidator sdk w3 = (Returns validator, w4) \<and>
          Validate sdk validator ast w4 = (Panics v, w5) \<longrightarrow>
          (\<exists>tr'. tr = [Called ''NewConfigure'', Called ''NewLoader'', Called ''LoadFile'',
                           Called ''NewValidator'', Called ''Validate'', Panicked v] @ tr')) \<and>
      (\<forall>conf w1 loader w2 ast w3 validator w4 w5 v w6.
          NewConfigure sdk w = (Returns conf, w1) \<and>
          NewLoader sdk w1 = (Returns loader, w2) \<and>
          LoadFile sdk loader filePath w2 = (Returns (ast, None), w3) \<and>
          NewValidator sdk w3 = (Returns validator, w4) \<and>
          Validate sdk validator ast w4 = (Returns None, w5) \<and>
          NewStore sdk w5 = (Panics v, w6) \<longrightarrow>
          (\<exists>tr'. tr = [Called ''NewConfigure'', Called ''NewLoader'', Called ''LoadFile'',
                           Called ''NewValidator'', Called ''Validate'', Called ''NewStore'',
                           Panicked v] @ tr')) \<and>
      (\<forall>conf w1 loader w2 ast w3 validator w4 w5 store w6 v w7.
          NewConfigure sdk w = (Returns conf, w1) \<and>
          NewLoader sdk w1 = (Returns loader, w2) \<and>
          LoadFile sdk loader filePath w2 = (Returns (ast, None), w3) \<and>
          NewValidator sdk w3 = (Returns validator, w4) \<and>
          Validate sdk validator ast w4 = (Returns None, w5) \<and>
          NewStore sdk w5 = (Returns store, w6) \<and>
          NewExecutor sdk w6 = (Panics v, w7) \<longrightarrow>
          (\<exists>tr'. tr = [Called ''NewConfigure'', Called ''NewLoader'', Called ''LoadFile'',
                           Called ''NewValidator'', Called ''Validate'', Called ''NewStore'',
                           Called ''NewExecutor'', Panicked v] @ tr')) \<and>
      (\<forall>conf w1 loader w2 ast w3 validator w4 w5 store w6 executor w7 v w8.
          NewConfigure sdk w = (Returns conf, w1) \<and>
          NewLoader sdk w1 = (Returns loader, w2) \<and>
          LoadFile sdk loader filePath w2 = (Returns (ast, None), w3) \<and>
          NewValidator sdk w3 = (Returns validator, w4) \<and>
          Validate sdk validator ast w4 = (Returns None, w5) \<and>
          NewStore sdk w5 = (Returns store, w6) \<and>
          NewExecutor sdk w6 = (Returns executor, w7) \<and>
          Instantiate sdk executor store ast w7 = (Panics v, w8) \<longrightarrow>
          (\<exists>tr'. tr = [Called ''NewConfigure'', Called ''NewLoader'', Called ''LoadFile'',
                           Called ''NewValidator'', Called ''Validate'', Called ''NewStore'',
                           Called ''NewExecutor'', Called ''Instantiate'', Panicked v] @ tr')) \<and>
      (\<forall>conf w1 loader w2 ast w3 validator w4 w5 store w6 executor w7 module w8 v w9.
          NewConfigure sdk w = (Returns conf, w1) \<and>
          NewLoader sdk w1 = (Returns loader, w2) \<and>
          LoadFile sdk loader filePath w2 = (Returns (ast, None), w3) \<and>
          NewValidator sdk w3 = (Returns validator, w4) \<and>
          Validate sdk validator ast w4 = (Returns None, w5) \<and>
          NewStore sdk w5 = (Returns store, w6) \<and>
          NewExecutor sdk w6 = (Returns executor, w7) \<and>
          Instantiate sdk executor store ast w7 = (Returns (module, None), w8) \<and>
          FindFunction sdk module ''process'' w8 = (Panics v, w9) \<longrightarrow>
          (\<exists>tr'. tr = [Called ''NewConfigure'', Called ''NewLoader'', Called ''LoadFile'',
                           Called ''NewValidator'', Called ''Validate'', Called ''NewStore'',
                           Called ''NewExecutor'', Called ''Instantiate'',
                           Called ''FindFunction'', Panicked v] @ tr')) \<and>
      (\<forall>conf w1 loader w2 ast w3 validator w4 w5 store w6 executor w7 module w8 f w9 v w10.
          NewConfigure sdk w = (Returns conf, w1) \<and>
          NewLoader sdk w1 = (Returns loader, w2) \<and>
          LoadFile sdk loader filePath w2 = (Returns (ast, None), w3) \<and>
          NewValidator sdk w3 = (Returns validator, w4) \<and>
          Validate sdk validator ast w4 = (Returns None, w5) \<and>
          NewStore sdk w5 = (Returns store, w6) \<and>
          NewExecutor sdk w6 = (Returns executor, w7) \<and>
          Instantiate sdk executor store ast w7 = (Returns (module, None), w8) \<and>
          FindFunction sdk module ''process'' w8 = (Returns (Some f), w9) \<and>
          Invoke sdk executor f [GoInt32 1] w9 = (Panics v, w10) \<longrightarrow>
          (\<exists>tr'. tr = [Called ''NewConfigure'', Called ''NewLoader'', Called ''LoadFile'',
                           Called ''NewValidator'', Called ''Validate'', Called ''NewStore'',
                           Called ''NewExecutor'', Called ''Instantiate'',
                           Called ''FindFunction'', Called ''Invoke'', Panicked v] @ tr'))"
proof -
  obtain out w' tr where eq: "processWasmFile sdk filePath w = (out, w', tr)"
    by (cases "processWasmFile sdk filePath w") auto
  from sdk_returns [OF eq] obtain r tr' where r: "out = Returns r"
    and f: "FilePath r = filePath" "FileName r = filepath_Base filePath"
      "length (recoveries_of tr) \<le> 1"
      "\<forall>v. recoveries_of tr = [v] \<longrightarrow> \<not> Success r \<and> FailureStage r = StageExecute \<and>
         ErrorMessage r = ''panic recovered: '' @ v"
      "panics_of tr \<noteq> [] \<and> stops_of tr = [] \<longrightarrow> recoveries_of tr = [last (panics_of tr)]"
    and t: "tr = trace (processWasmFile_body sdk filePath (enter w)) @ tr'"
    by (elim exE conjE) (rule that)
  have t0: "(\<forall>v w1.
        NewConfigure sdk w = (Panics v, w1) \<longrightarrow>
        (\<exists>tr'. tr = [Called ''NewConfigure'', Panicked v] @ tr'))"
  proof (intro allI impI)
    fix v w1
    assume "NewConfigure sdk w = (Panics v, w1)"
    from sdk_body_NewConfigure_panic [OF this] t
    show "\<exists>tr'. tr = [Called ''NewConfigure'', Panicked v] @ tr'"
      by (intro exI [of _ tr']) simp
  qed
  have t1: "(\<forall>conf w1 v w2.
        NewConfigure sdk w = (Returns conf, w1) \<and>
        NewLoader sdk w1 = (Panics v, w2) \<longrightarrow>
        (\<exists>tr'. tr = [Called ''NewConfigure'', Called ''NewLoader'', Panicked v] @ tr'))"
  proof (intro allI impI, elim conjE)
    fix conf w1 v w2
    assume "NewConfigure sdk w = (Returns conf, w1)"
      "NewLoader sdk w1 = (Panics v, w2)"
    from sdk_body_NewLoader_panic [OF this] t
    show "\<exists>tr'. tr = [Called ''NewConfigure'', Called ''NewLoader'', Panicked v] @ tr'"
      by (intro exI [of _ tr']) simp
  qed
  have t2: "(\<forall>conf w1 loader w2 v w3.
        NewConfigure sdk w = (Returns conf, w1) \<and>
        NewLoader sdk w1 = (Returns loader, w2) \<and>
        LoadFile sdk loader filePath w2 = (Panics v, w3) \<longrightarrow>
        (\<exists>tr'. tr = [Called ''NewConfigure'', Called ''NewLoader'', Called ''LoadFile'',
                         Panicked v] @ tr'))"
  proof (intro allI impI, elim conjE)
    fix conf w1 loader w2 v w3
    assume "NewConfigure sdk w = (Returns conf, w1)"
      "NewLoader sdk w1 = (Returns loader, w2)"
      "LoadFile sdk loader filePath w2 = (Panics v, w3)"
    from sdk_body_LoadFile_panic [OF this] t
    show "\<exists>tr'. tr = [Called ''NewConfigure'', Called ''NewLoader'', Called ''LoadFile'',
                         Panicked v] @ tr'"
      by (intro exI [of _ tr']) simp
  qed
  have t3: "(\<forall>conf w1 loader w2 ast w3 v w4.
        NewConfigure sdk w = (Returns conf, w1) \<and>
        NewLoader sdk w1 = (Returns loader, w2) \<and>
        LoadFile sdk loader filePath w2 = (Returns (ast, None), w3) \<and>
        NewValidator sdk w3 = (Panics v, w4) \<longrightarrow>
        (\<exists>tr'. tr = [Called ''NewConfigure'', Called ''NewLoader'', Called ''LoadFile'',
                         Called ''NewValidator'', Panicked v] @ tr'))"
  proof (intro allI impI, elim conjE)
    fix conf w1 loader w2 ast w3 v w4
    assume "NewConfigure sdk w = (Returns conf, w1)"
      "NewLoader sdk w1 = (Returns loader, w2)"
      "LoadFile sdk loader filePath w2 = (Returns (ast, None), w3)"
      "NewValidator sdk w3 = (Panics v, w4)"
    from sdk_body_NewValidator_panic [OF this] t
    show "\<exists>tr'. tr = [Called ''NewConfigure'', Called ''NewLoader'', Called ''LoadFile'',
                         Called ''NewValidator'', Panicked v] @ tr'"
      by (intro exI [of _ tr']) simp
  qed
  have t4: "(\<forall>conf w1 loader w2 ast w3 validator w4 v w5.
        NewConfigure sdk w = (Returns conf, w1) \<and>
        NewLoader sdk w1 = (Returns loader, w2) \<and>
        LoadFile sdk loader filePath w2 = (Returns (ast, None), w3) \<and>
        NewValidator sdk w3 = (Returns validator, w4) \<and>
        Validate sdk validator ast w4 = (Panics v, w5) \<longrightarrow>
        (\<exists>tr'. tr = [Called ''NewConfigure'', Called ''NewLoader'', Called ''LoadFile'',
                         Called ''NewValidator'', Called ''Validate'', Panicked v] @ tr'))"
  proof (intro allI impI, elim conjE)
    fix conf w1 loader w2 ast w3 validator w4 v w5
    assume "NewConfigure sdk w = (Returns conf, w1)"
      "NewLoader sdk w1 = (Returns loader, w2)"
      "LoadFile sdk loader filePath w2 = (Returns (ast, None), w3)"
      "NewValidator sdk w3 = (Returns validator, w4)"
      "Validate sdk validator ast w4 = (Panics v, w5)"
    from sdk_body_Validate_panic [OF this] t
    show "\<exists>tr'. tr = [Called ''NewConfigure'', Called ''NewLoader'', Called ''LoadFile'',
                         Called ''NewValidator'', Called ''Validate'', Panicked v] @ tr'"
      by (intro exI [of _ tr']) simp
  qed
  have t5: "(\<forall>conf w1 loader w2 ast w3 validator w4 w5 v w6.
        NewConfigure sdk w = (Returns conf, w1) \<and>
        NewLoader sdk w1 = (Returns loader, w2) \<and>
        LoadFile sdk loader filePath w2 = (Returns (ast, None), w3) \<and>
        NewValidator sdk w3 = (Returns validator, w4) \<and>
        Validate sdk validator ast w4 = (Returns None, w5) \<and>
        NewStore sdk w5 = (Panics v, w6) \<longrightarrow>
        (\<exists>tr'. tr = [Called ''NewConfigure'', Called ''NewLoader'', Called ''LoadFile'',
                         Called ''NewValidator'', Called ''Validate'', Called ''NewStore'',
                         Panicked v] @ tr'))"
  proof (intro allI impI, elim conjE)
    fix conf w1 loader w2 ast w3 validator w4 w5 v w6
    assume "NewConfigure sdk w = (Returns conf, w1)"
      "NewLoader sdk w1 = (Returns loader, w2)"
      "LoadFile sdk loader filePath w2 = (Returns (ast, None), w3)"
      "NewValidator sdk w3 = (Returns validator, w4)"
      "Validate sdk validator ast w4 = (Returns None, w5)"
      "NewStore sdk w5 = (Panics v, w6)"
    from sdk_body_NewStore_panic [OF this] t
    show "\<exists>tr'. tr = [Called ''NewConfigure'', Called ''NewLoader'', Called ''LoadFile'',
                         Called ''NewValidator'', Called ''Validate'', Called ''NewStore'',
                         Panicked v] @ tr'"
      by (intro exI [of _ tr']) simp
  qed
  have t6: "(\<forall>conf w1 loader w2 ast w3 validator w4 w5 store w6 v w7.
        NewConfigure sdk w = (Returns conf, w1) \<and>
        NewLoader sdk w1 = (Returns loader, w2) \<and>
        LoadFile sdk loader filePath w2 = (Returns (ast, None), w3) \<and>
        NewValidator sdk w3 = (Returns validator, w4) \<and>
        Validate sdk validator ast w4 = (Returns None, w5) \<and>
        NewStore sdk w5 = (Returns store, w6) \<and>
        NewExecutor sdk w6 = (Panics v, w7) \<longrightarrow>
        (\<exists>tr'. tr = [Called ''NewConfigure'', Called ''NewLoader'', Called ''LoadFile'',
                         Called ''NewValidator'', Called ''Validate'', Called ''NewStore'',
                         Called ''NewExecutor'', Panicked v] @ tr'))"
  proof (intro allI impI, elim conjE)
    fix conf w1 loader w2 ast w3 validator w4 w5 store w6 v w7
    assume "NewConfigure sdk w = (Returns conf, w1)"
      "NewLoader sdk w1 = (Returns loader, w2)"
      "LoadFile sdk loader filePath w2 = (Returns (ast, None), w3)"
      "NewValidator sdk w3 = (Returns validator, w4)"
      "Validate sdk validator ast w4 = (Returns None, w5)"
      "NewStore sdk w5 = (Returns store, w6)"
      "NewExecutor sdk w6 = (Panics v, w7)"
    from sdk_body_NewExecutor_panic [OF this] t
    show "\<exists>tr'. tr = [Called ''NewConfigure'', Called ''NewLoader'', Called ''LoadFile'',
                         Called ''NewValidator'', Called ''Validate'', Called ''NewStore'',
                         Called ''NewExecutor'', Panicked v] @ tr'"
      by (intro exI [of _ tr']) simp
  qed
  have t7: "(\<forall>conf w1 loader w2 ast w3 validator w4 w5 store w6 executor w7 v w8.
        NewConfigure sdk w = (Returns conf, w1) \<and>
        NewLoader sdk w1 = (Returns loader, w2) \<and>
        LoadFile sdk loader filePath w2 = (Returns (ast, None), w3) \<and>
        NewValidator sdk w3 = (Returns validator, w4) \<and>
        Validate sdk validator ast w4 = (Returns None, w5) \<and>
        NewStore sdk w5 = (Returns store, w6) \<and>
        NewExecutor sdk w6 = (Returns executor, w7) \<and>
        Instantiate sdk executor store ast w7 = (Panics v, w8) \<longrightarrow>
        (\<exists>tr'. tr = [Called ''NewConfigure'', Called ''NewLoader'', Called ''LoadFile'',
                         Called ''NewValidator'', Called ''Validate'', Called ''NewStore'',
                         Called ''NewExecutor'', Called ''Instantiate'', Panicked v] @ tr'))"
  proof (intro allI impI, elim conjE)
    fix conf w1 loader w2 ast w3 validator w4 w5 store w6 executor w7 v w8
    assume "NewConfigure sdk w = (Returns conf, w1)"
      "NewLoader sdk w1 = (Returns loader, w2)"
      "LoadFile sdk loader filePath w2 = (Returns (ast, None), w3)"
      "NewValidator sdk w3 = (Returns validator, w4)"
      "Validate sdk validator ast w4 = (Returns None, w5)"
      "NewStore sdk w5 = (Returns store, w6)"
      "NewExecutor sdk w6 = (Returns executor, w7)"
      "Instantiate sdk executor store ast w7 = (Panics v, w8)"
    from sdk_body_Instantiate_panic [OF this] t
    show "\<exists>tr'. tr = [Called ''NewConfigure'', Called ''NewLoader'', Called ''LoadFile'',
                         Called ''NewValidator'', Called ''Validate'', Called ''NewStore'',
                         Called ''NewExecutor'', Called ''Instantiate'', Panicked v] @ tr'"
      by (intro exI [of _ tr']) simp
  qed
  have t8: "(\<forall>conf w1 loader w2 ast w3 validator w4 w5 store w6 executor w7 module w8 v w9.
        NewConfigure sdk w = (Returns conf, w1) \<and>
        NewLoader sdk w1 = (Returns loader, w2) \<and>
        LoadFile sdk loader filePath w2 = (Returns (ast, None), w3) \<and>
        NewValidator sdk w3 = (Returns validator, w4) \<and>
        Validate sdk validator ast w4 = (Returns None, w5) \<and>
        NewStore sdk w5 = (Returns store, w6) \<and>
        NewExecutor sdk w6 = (Returns executor, w7) \<and>
        Instantiate sdk executor store ast w7 = (Returns (module, None), w8) \<and>
        FindFunction sdk module ''process'' w8 = (Panics v, w9) \<longrightarrow>
        (\<exists>tr'. tr = [Called ''NewConfigure'', Called ''NewLoader'', Called ''LoadFile'',
                         Called ''NewValidator'', Called ''Validate'', Called ''NewStore'',
                         Called ''NewExecutor'', Called ''Instantiate'',
                         Called ''FindFunction'', Panicked v] @ tr'))"
  proof (intro allI impI, elim conjE)
    fix conf w1 loader w2 ast w3 validator w4 w5 store w6 executor w7 module w8 v w9
    assume "NewConfigure sdk w = (Returns conf, w1)"
      "NewLoader sdk w1 = (Returns loader, w2)"
      "LoadFile sdk loader filePath w2 = (Returns (ast, None), w3)"
      "NewValidator sdk w3 = (Returns validator, w4)"
      "Validate sdk validator ast w4 = (Returns None, w5)"
      "NewStore sdk w5 = (Returns store, w6)"
      "NewExecutor sdk w6 = (Returns executor, w7)"
      "Instantiate sdk executor store ast w7 = (Returns (module, None), w8)"
      "FindFunction sdk module ''process'' w8 = (Panics v, w9)"
    from sdk_body_FindFunction_panic [OF this] t
    show "\<exists>tr'. tr = [Called ''NewConfigure'', Called ''NewLoader'', Called ''LoadFile'',
                         Called ''NewValidator'', Called ''Validate'', Called ''NewStore'',
                         Called ''NewExecutor'', Called ''Instantiate'',
                         Called ''FindFunction'', Panicked v] @ tr'"
      by (intro exI [of _ tr']) simp
  qed
  have t9: "(\<forall>conf w1 loader w2 ast w3 validator w4 w5 store w6 executor w7 module w8 f w9 v w10.
        NewConfigure sdk w = (Returns conf, w1) \<and>
        NewLoader sdk w1 = (Returns loader, w2) \<and>
        LoadFile sdk loader filePath w2 = (Returns (ast, None), w3) \<and>
        NewValidator sdk w3 = (Returns validator, w4) \<and>
        Validate sdk validator ast w4 = (Returns None, w5) \<and>
        NewStore sdk w5 = (Returns store, w6) \<and>
        NewExecutor sdk w6 = (Returns executor, w7) \<and>
        Instantiate sdk executor store ast w7 = (Returns (module, None), w8) \<and>
        FindFunction sdk module ''process'' w8 = (Returns (Some f), w9) \<and>
        Invoke sdk executor f [GoInt32 1] w9 = (Panics v, w10) \<longrightarrow>
        (\<exists>tr'. tr = [Called ''NewConfigure'', Called ''NewLoader'', Called ''LoadFile'',
                         Called ''NewValidator'', Called ''Validate'', Called ''NewStore'',
                         Called ''NewExecutor'', Called ''Instantiate'',
                         Called ''FindFunction'', Called ''Invoke'', Panicked v] @ tr'))"
  proof (intro allI impI, elim conjE)
    fix conf w1 loader w2 ast w3 validator w4 w5 store w6 executor w7 module w8 f w9 v w10
    assume "NewConfigure sdk w = (Returns conf, w1)"
      "NewLoader sdk w1 = (Returns loader, w2)"
      "LoadFile sdk loader filePath w2 = (Returns (ast, None), w3)"
      "NewValidator sdk w3 = (Returns validator, w4)"
      "Validate sdk validator ast w4 = (Returns None, w5)"
      "NewStore sdk w5 = (Returns store, w6)"
      "NewExecutor sdk w6 = (Returns executor, w7)"
      "Instantiate sdk executor store ast w7 = (Returns (module, None), w8)"
      "FindFunction sdk module ''process'' w8 = (Returns (Some f), w9)"
      "Invoke sdk executor f [GoInt32 1] w9 = (Panics v, w10)"
    from sdk_body_Invoke_panic [OF this] t
    show "\<exists>tr'. tr = [Called ''NewConfigure'', Called ''NewLoader'', Called ''LoadFile'',
                         Called ''NewValidator'', Called ''Validate'', Called ''NewStore'',
                         Called ''NewExecutor'', Called ''Instantiate'',
                         Called ''FindFunction'', Called ''Invoke'', Panicked v] @ tr'"
      by (intro exI [of _ tr']) simp
  qed
  from eq r have e: "processWasmFile sdk filePath w = (Returns r, w', tr)" by simp
  show ?thesis
    by (intro exI [of _ r] exI [of _ w'] exI [of _ tr] conjI e f
          t0 t1 t2 t3 t4 t5 t6 t7 t8 t9)
qed




section \<open>Classification of errors and panics\<close>

text \<open>
  C2, as stated, fails twice. An error holding a nil \<^verbatim>\<open>*RuntimeError\<close> carries no stage
  tag, yet the load call's result is not classified \<^verbatim>\<open>load\<close>: \<^verbatim>\<open>errors.As\<close> succeeds with
  a nil target, reading its \<^verbatim>\<open>Stage\<close> panics, and the recovery classifies \<^verbatim>\<open>execute\<close>. And
  a panic of \<^verbatim>\<open>Execute\<close> is not classified \<^verbatim>\<open>execute\<close> when the deferred \<^verbatim>\<open>Close\<close> calls
  \<^verbatim>\<open>recover()\<close>: the stage stays \<^verbatim>\<open>none\<close>.
\<close>

theorem classification_counterexample:
  "errors_As (RuntimeErrorPtr None) = Some None \<and>
   LoadModule nil_pointer_runtime ''/test/malformed.wasm'' False =
     (Returns (None, Some (RuntimeErrorPtr None)), False) \<and>
   processWasmFileWithRuntime ''/test/malformed.wasm'' nil_pointer_runtime False =
     (Returns \<lparr>FilePath = ''/test/malformed.wasm'', FileName = ''malformed.wasm'',
        Success = False, FailureStage = ''execute'',
        ErrorMessage = ''panic recovered: runtime error: invalid memory address or nil pointer dereference'',
        ReturnValues = None\<rparr>,
      False,
      [Called ''LoadModule'',
       Panicked ''runtime error: invalid memory address or nil pointer dereference'',
       Recovered ''runtime error: invalid memory address or nil pointer dereference'']) \<and>
   Execute swallowing_module ''process'' [GoInt32 1] False = (Panics ''test panic'', False) \<and>
   processWasmFileWithRuntime ''/test/swallowed.wasm'' swallowing_runtime False =
     (Returns \<lparr>FilePath = ''/test/swallowed.wasm'', FileName = ''swallowed.wasm'',
        Success = False, FailureStage = ''none'', ErrorMessage = [],
        ReturnValues = None\<rparr>,
      True,
      [Called ''LoadModule'', Called ''Execute'', Panicked ''test panic'',
       Called ''Close'', Stopped ''test panic''])"
  by (simp add: nil_pointer_runtime_def swallowing_runtime_def swallowing_module_def
        MockWasmRuntime_def rt_defs stage_defs nil_dereference_def filepath_Base_def
        IsPathSeparator_def)

text \<open>
  C2, amended. For every error the runtime boundary returns: when \<^verbatim>\<open>errors.As\<close> finds a
  non-nil \<^verbatim>\<open>*RuntimeError\<close> in it, the result's stage and message are that error's
  \<^verbatim>\<open>Stage\<close> and \<^verbatim>\<open>Message\<close>; when it finds none, the stage is \<^verbatim>\<open>load\<close> for the
  \<^verbatim>\<open>LoadModule\<close> call and \<^verbatim>\<open>execute\<close> for the \<^verbatim>\<open>Execute\<close> call; when it finds a nil
  \<^verbatim>\<open>*RuntimeError\<close>, the read of its field panics. At the \<^verbatim>\<open>Execute\<close> call this holds
  when the deferred \<^verbatim>\<open>Close\<close> does not panic. A panic that reaches the processor's
  closure is classified \<^verbatim>\<open>execute\<close>, with the message \<^verbatim>\<open>panic recovered: \<close> and its value:
  a panic of \<^verbatim>\<open>LoadModule\<close> and the nil read at the load call always; a panic of
  \<^verbatim>\<open>Execute\<close> and the nil read at the execute call when \<^verbatim>\<open>Close\<close> completes; a panic of
  \<^verbatim>\<open>Close\<close> always. When \<^verbatim>\<open>Close\<close> calls \<^verbatim>\<open>recover()\<close> with one of those two in flight,
  the panic ends there and the stage stays \<^verbatim>\<open>none\<close> with no message.
\<close>

theorem classification:
  assumes "processWasmFileWithRuntime filePath runtime w = (Returns r, w', tr)"
  shows
   "(\<forall>module e w1. LoadModule runtime filePath w = (Returns (module, Some e), w1) \<longrightarrow>
       (case errors_As e of
          Some (Some re) \<Rightarrow> FailureStage r = Stage re \<and> ErrorMessage r = Message re
        | Some None \<Rightarrow> FailureStage r = StageExecute \<and>
            ErrorMessage r = ''panic recovered: '' @ nil_dereference
        | None \<Rightarrow> FailureStage r = StageLoad \<and> ErrorMessage r = ''load failed: '' @ fmt_v e)) \<and>
    (\<forall>m w1 returns e w2 c w3. LoadModule runtime filePath w = (Returns (Some m, None), w1) \<and>
         Execute m ''process'' [GoInt32 1] w1 = (Returns (returns, Some e), w2) \<and>
         Close m w2 = (c, w3) \<longrightarrow>
       (case c of
          Raises v \<Rightarrow> FailureStage r = StageExecute \<and> ErrorMessage r = ''panic recovered: '' @ v
        | Completes \<Rightarrow>
            (case errors_As e of
               Some (Some re) \<Rightarrow> FailureStage r = Stage re \<and> ErrorMessage r = Message re
             | Some None \<Rightarrow> FailureStage r = StageExecute \<and>
                 ErrorMessage r = ''panic recovered: '' @ nil_dereference
             | None \<Rightarrow> FailureStage r = StageExecute \<and>
                 ErrorMessage r = ''execution failed: '' @ fmt_v e)
        | Recovers \<Rightarrow>
            (case errors_As e of
               Some (Some re) \<Rightarrow> FailureStage r = Stage re \<and> ErrorMessage r = Message re
             | Some None \<Rightarrow> FailureStage r = StageNone \<and> ErrorMessage r = []
             | None \<Rightarrow> FailureStage r = StageExecute \<and>
                 ErrorMessage r = ''execution failed: '' @ fmt_v e))) \<and>
    (\<forall>v. recoveries_of tr = [v] \<longrightarrow> FailureStage r = StageExecute \<and>
       ErrorMessage r = ''panic recovered: '' @ v) \<and>
    (\<forall>v w1. LoadModule runtime filePath w = (Panics v, w1) \<longrightarrow>
       FailureStage r = StageExecute \<and> ErrorMessage r = ''panic recovered: '' @ v) \<and>
    (\<forall>m w1 v w2 c w3. LoadModule runtime filePath w = (Returns (Some m, None), w1) \<and>
         Execute m ''process'' [GoInt32 1] w1 = (Panics v, w2) \<and> Close m w2 = (c, w3) \<longrightarrow>
       (case c of
          Completes \<Rightarrow> FailureStage r = StageExecute \<and>
            ErrorMessage r = ''panic recovered: '' @ v
        | Raises v' \<Rightarrow> FailureStage r = StageExecute \<and>
            ErrorMessage r = ''panic recovered: '' @ v'
        | Recovers \<Rightarrow> FailureStage r = StageNone \<and> ErrorMessage r = [])) \<and>
    (\<forall>m w1 returns w2 v w3. LoadModule runtime filePath w = (Returns (Some m, None), w1) \<and>
         Execute m ''process'' [GoInt32 1] w1 = (Returns (returns, None), w2) \<and>
         Close m w2 = (Raises v, w3) \<longrightarrow>
       FailureStage r = StageExecute \<and> ErrorMessage r = ''panic recovered: '' @ v)"
  using assms
  by (auto simp add: rt_defs
        split: prod.splits outcome.splits option.splits deferred_outcome.splits)

theorem classification_witness:
  "\<exists>r w' tr. processWasmFileWithRuntime ''/test/invalid.wasm'' validate_error_runtime False =
       (Returns r, w', tr) \<and>
     FailureStage r = StageValidate \<and> ErrorMessage r = ''unknown opcode 0xFE''"
proof -
  let ?e = "RuntimeErrorPtr (Some (RuntimeError StageValidate ''unknown opcode 0xFE'' None))"
  obtain r w' tr where eq:
    "processWasmFileWithRuntime ''/test/invalid.wasm'' validate_error_runtime False =
       (Returns r, w', tr)"
    using rt_returns [of "''/test/invalid.wasm''" validate_error_runtime False] by blast
  have l: "LoadModule validate_error_runtime ''/test/invalid.wasm'' False =
      (Returns (None, Some ?e), False)"
    by (simp add: validate_error_runtime_def MockWasmRuntime_def)
  from classification [OF eq] have
    "\<forall>module e w1. LoadModule validate_error_runtime ''/test/invalid.wasm'' False =
        (Returns (module, Some e), w1) \<longrightarrow>
       (case errors_As e of
          Some (Some re) \<Rightarrow> FailureStage r = Stage re \<and> ErrorMessage r = Message re
        | Some None \<Rightarrow> FailureStage r = StageExecute \<and>
            ErrorMessage r = ''panic recovered: '' @ nil_dereference
        | None \<Rightarrow> FailureStage r = StageLoad \<and> ErrorMessage r = ''load failed: '' @ fmt_v e)"
    by (rule conjunct1)
  from this [rule_format, OF l] have "FailureStage r = StageValidate \<and>
      ErrorMessage r = ''unknown opcode 0xFE''"
    by simp
  with eq show ?thesis by blast
qed

section \<open>Success and the stage \<^verbatim>\<open>none\<close>\<close>





section \<open>Release of the module\<close>

text \<open>
  C5. When \<^verbatim>\<open>LoadModule\<close> returns a module and no error, the processor calls
  \<^verbatim>\<open>LoadModule\<close>, \<^verbatim>\<open>Execute\<close> and \<^verbatim>\<open>Close\<close>, each once and in this order, whether
  \<^verbatim>\<open>Execute\<close> returns values, returns an error or panics, and whether \<^verbatim>\<open>Close\<close>
  completes, recovers or panics; the world it leaves is the one that \<^verbatim>\<open>Close\<close> of the returned module left
  after \<^verbatim>\<open>Execute\<close>. When \<^verbatim>\<open>LoadModule\<close> returns an error or panics, or returns neither
  a module nor an error, \<^verbatim>\<open>Close\<close> is not called and the world is the one \<^verbatim>\<open>LoadModule\<close>
  left.
\<close>

theorem close_exactly_once:
  assumes "processWasmFileWithRuntime filePath runtime w = (out, w', tr)"
  shows
   "(\<forall>m w1 x w2 c w3. LoadModule runtime filePath w = (Returns (Some m, None), w1) \<and>
        Execute m ''process'' [GoInt32 1] w1 = (x, w2) \<and> Close m w2 = (c, w3) \<longrightarrow>
      calls_of tr = [''LoadModule'', ''Execute'', ''Close''] \<and>
      length (filter (\<lambda>name. name = ''Close'') (calls_of tr)) = 1 \<and> w' = w3) \<and>
    (\<forall>module e w1. LoadModule runtime filePath w = (Returns (module, Some e), w1) \<longrightarrow>
      ''Close'' \<notin> set (calls_of tr) \<and> w' = w1) \<and>
    (\<forall>v w1. LoadModule runtime filePath w = (Panics v, w1) \<longrightarrow>
      ''Close'' \<notin> set (calls_of tr) \<and> w' = w1) \<and>
    (\<forall>w1. LoadModule runtime filePath w = (Returns (None, None), w1) \<longrightarrow>
      ''Close'' \<notin> set (calls_of tr) \<and> w' = w1)"
  using assms
  by (auto simp add: rt_defs
        split: prod.splits outcome.splits option.splits deferred_outcome.splits)

theorem close_exactly_once_witness:
  "\<exists>out tr. processWasmFileWithRuntime ''/test/panic_cleanup.wasm'' panic_runtime False =
      (out, True, tr) \<and>
    calls_of tr = [''LoadModule'', ''Execute'', ''Close''] \<and>
    length (filter (\<lambda>name. name = ''Close'') (calls_of tr)) = 1"
proof -
  obtain out w' tr where eq:
    "processWasmFileWithRuntime ''/test/panic_cleanup.wasm'' panic_runtime False = (out, w', tr)"
    by (cases "processWasmFileWithRuntime ''/test/panic_cleanup.wasm'' panic_runtime False") auto
  have l: "LoadModule panic_runtime ''/test/panic_cleanup.wasm'' False =
      (Returns (Some panic_module, None), False)"
    by (simp add: panic_runtime_def MockWasmRuntime_def)
  have x: "Execute panic_module ''process'' [GoInt32 1] False = (Panics ''test panic'', False)"
    by (simp add: panic_module_def MockWasmModule_def)
  have c: "Close panic_module False = (Completes, True)"
    by (simp add: panic_module_def MockWasmModule_def)
  from close_exactly_once [OF eq] have
    "\<forall>m w1 x w2 c w3. LoadModule panic_runtime ''/test/panic_cleanup.wasm'' False =
          (Returns (Some m, None), w1) \<and>
        Execute m ''process'' [GoInt32 1] w1 = (x, w2) \<and> Close m w2 = (c, w3) \<longrightarrow>
      calls_of tr = [''LoadModule'', ''Execute'', ''Close''] \<and>
      length (filter (\<lambda>name. name = ''Close'') (calls_of tr)) = 1 \<and> w' = w3"
    by (rule conjunct1)
  from this [rule_format, OF conjI [OF l conjI [OF x c]]] eq show ?thesis by blast
qed

text \<open>
  C9. When \<^verbatim>\<open>LoadModule\<close> returns a module together with an error, the processor takes
  the failure branch: it makes no further call (no \<^verbatim>\<open>Execute\<close>, no \<^verbatim>\<open>Close\<close>), leaves the
  world as \<^verbatim>\<open>LoadModule\<close> left it, and returns a failure classified from the error. Its
  outcome is the one it has for a runtime that returns the same error and no module:
  the release depends on the error alone.
\<close>

theorem handle_with_error_not_closed:
  assumes "processWasmFileWithRuntime filePath runtime w = (out, w', tr)"
    and "LoadModule runtime filePath w = (Returns (Some m, Some e), w1)"
  shows "calls_of tr = [''LoadModule''] \<and> w' = w1 \<and>
    (\<exists>r. out = Returns r \<and> \<not> Success r \<and> ReturnValues r = None \<and>
       (case errors_As e of
          Some (Some re) \<Rightarrow> FailureStage r = Stage re \<and> ErrorMessage r = Message re
        | Some None \<Rightarrow> FailureStage r = StageExecute \<and>
            ErrorMessage r = ''panic recovered: '' @ nil_dereference
        | None \<Rightarrow> FailureStage r = StageLoad \<and> ErrorMessage r = ''load failed: '' @ fmt_v e)) \<and>
    (\<forall>runtime'. LoadModule runtime' filePath w = (Returns (None, Some e), w1) \<longrightarrow>
       processWasmFileWithRuntime filePath runtime' w = (out, w', tr))"
  using assms
  by (auto simp add: rt_defs
        split: prod.splits outcome.splits option.splits deferred_outcome.splits)

theorem handle_with_error_not_closed_witness:
  "\<exists>r tr. processWasmFileWithRuntime ''/test/malformed.wasm'' handle_and_error_runtime False =
      (Returns r, False, tr) \<and>
    calls_of tr = [''LoadModule''] \<and> \<not> Success r \<and> FailureStage r = StageLoad \<and>
    ErrorMessage r = ''load failed: read error: permission denied''"
proof -
  obtain out w' tr where eq:
    "processWasmFileWithRuntime ''/test/malformed.wasm'' handle_and_error_runtime False =
       (out, w', tr)"
    by (cases "processWasmFileWithRuntime ''/test/malformed.wasm'' handle_and_error_runtime False")
       auto
  have l: "LoadModule handle_and_error_runtime ''/test/malformed.wasm'' False =
      (Returns (Some answer_module, Some (PlainError ''read error: permission denied'')), False)"
    by (simp add: handle_and_error_runtime_def MockWasmRuntime_def)
  from handle_with_error_not_closed [OF eq l] eq show ?thesis by auto
qed

section \<open>The fields of a result\<close>

text \<open>
  C8, as stated, fails on both fields. The message of a tagged error is copied as it
  is, so a \<^verbatim>\<open>RuntimeError\<close> with an empty message gives a failure with no
  \<^verbatim>\<open>error_message\<close>; so does a panic of \<^verbatim>\<open>Execute\<close> that the deferred \<^verbatim>\<open>Close\<close> ends with
  \<^verbatim>\<open>recover()\<close>. An \<^verbatim>\<open>Execute\<close> that returns no value and no error gives a success with no
  \<^verbatim>\<open>return_values\<close>. And when \<^verbatim>\<open>Execute\<close> returns a value and \<^verbatim>\<open>Close\<close> then panics, the
  closure turns the result into a failure and leaves \<^verbatim>\<open>ReturnValues\<close> set: a failure
  with \<^verbatim>\<open>return_values\<close>.
\<close>

theorem result_fields_counterexample:
  "processWasmFileWithRuntime ''/test/malformed.wasm'' empty_message_runtime False =
     (Returns \<lparr>FilePath = ''/test/malformed.wasm'', FileName = ''malformed.wasm'',
        Success = False, FailureStage = ''load'', ErrorMessage = [],
        ReturnValues = None\<rparr>,
      False, [Called ''LoadModule'']) \<and>
   \<not> ErrorMessage_present
       \<lparr>FilePath = ''/test/malformed.wasm'', FileName = ''malformed.wasm'',
        Success = False, FailureStage = ''load'', ErrorMessage = [],
        ReturnValues = None\<rparr> \<and>
   processWasmFileWithRuntime ''/test/swallowed.wasm'' swallowing_runtime False =
     (Returns \<lparr>FilePath = ''/test/swallowed.wasm'', FileName = ''swallowed.wasm'',
        Success = False, FailureStage = ''none'', ErrorMessage = [],
        ReturnValues = None\<rparr>,
      True,
      [Called ''LoadModule'', Called ''Execute'', Panicked ''test panic'',
       Called ''Close'', Stopped ''test panic'']) \<and>
   processWasmFileWithRuntime ''/test/void.wasm'' void_runtime False =
     (Returns \<lparr>FilePath = ''/test/void.wasm'', FileName = ''void.wasm'',
        Success = True, FailureStage = ''none'', ErrorMessage = [],
        ReturnValues = None\<rparr>,
      True, [Called ''LoadModule'', Called ''Execute'', Called ''Close'']) \<and>
   \<not> ReturnValues_present
       \<lparr>FilePath = ''/test/void.wasm'', FileName = ''void.wasm'',
        Success = True, FailureStage = ''none'', ErrorMessage = [],
        ReturnValues = None\<rparr> \<and>
   processWasmFileWithRuntime ''/test/valid.wasm'' close_panic_runtime False =
     (Returns \<lparr>FilePath = ''/test/valid.wasm'', FileName = ''valid.wasm'',
        Success = False, FailureStage = ''execute'',
        ErrorMessage = ''panic recovered: close panic'',
        ReturnValues = Some [GoInt32 42]\<rparr>,
      True,
      [Called ''LoadModule'', Called ''Execute'', Called ''Close'', Panicked ''close panic'',
       Recovered ''close panic'']) \<and>
   ReturnValues_present
       \<lparr>FilePath = ''/test/valid.wasm'', FileName = ''valid.wasm'',
        Success = False, FailureStage = ''execute'',
        ErrorMessage = ''panic recovered: close panic'',
        ReturnValues = Some [GoInt32 42]\<rparr>"
  by (simp add: empty_message_runtime_def swallowing_runtime_def swallowing_module_def
        void_runtime_def void_module_def close_panic_runtime_def close_panic_module_def
        MockWasmRuntime_def MockWasmModule_def rt_defs stage_defs filepath_Base_def
        IsPathSeparator_def ErrorMessage_present_def ReturnValues_present_def)

text \<open>
  C8, amended. In a result of \<^verbatim>\<open>processWasmFileWithRuntime\<close>: if \<^verbatim>\<open>Success\<close> is true,
  there is no \<^verbatim>\<open>error_message\<close>, and \<^verbatim>\<open>ReturnValues\<close> is the slice the \<^verbatim>\<open>Execute\<close> call
  returned, as it is, so that \<^verbatim>\<open>return_values\<close> is present exactly when that call
  returned at least one value. If \<^verbatim>\<open>Success\<close> is false, \<^verbatim>\<open>error_message\<close> is present,
  unless the runtime returned an error in which \<^verbatim>\<open>errors.As\<close> finds a \<^verbatim>\<open>RuntimeError\<close>
  with an empty \<^verbatim>\<open>Message\<close>, or the deferred \<^verbatim>\<open>Close\<close> called \<^verbatim>\<open>recover()\<close> after
  \<^verbatim>\<open>Execute\<close> panicked or returned an error holding a nil \<^verbatim>\<open>*RuntimeError\<close>.
  \<^verbatim>\<open>ReturnValues\<close> is set only when the \<^verbatim>\<open>Execute\<close> call returned without error, to what
  it returned; it is then set in a failure only when \<^verbatim>\<open>Close\<close> panicked afterwards.
\<close>

theorem result_fields:
  assumes "processWasmFileWithRuntime filePath runtime w = (Returns r, w', tr)"
  shows
   "(Success r \<longrightarrow> \<not> ErrorMessage_present r \<and>
       (\<exists>m w1 returns w2. LoadModule runtime filePath w = (Returns (Some m, None), w1) \<and>
          Execute m ''process'' [GoInt32 1] w1 = (Returns (returns, None), w2) \<and>
          ReturnValues r = returns \<and>
          (ReturnValues_present r \<longleftrightarrow> (\<exists>vs. returns = Some vs \<and> vs \<noteq> [])))) \<and>
    (\<not> Success r \<and> \<not> ErrorMessage_present r \<longrightarrow>
       (\<exists>module e re w1. LoadModule runtime filePath w = (Returns (module, Some e), w1) \<and>
          errors_As e = Some (Some re) \<and> Message re = []) \<or>
       (\<exists>m w1 returns e re w2. LoadModule runtime filePath w = (Returns (Some m, None), w1) \<and>
          Execute m ''process'' [GoInt32 1] w1 = (Returns (returns, Some e), w2) \<and>
          errors_As e = Some (Some re) \<and> Message re = []) \<or>
       (\<exists>m w1 x w2 w3. LoadModule runtime filePath w = (Returns (Some m, None), w1) \<and>
          Execute m ''process'' [GoInt32 1] w1 = (x, w2) \<and>
          Close m w2 = (Recovers, w3) \<and>
          ((\<exists>v. x = Panics v) \<or>
           (\<exists>returns e. x = Returns (returns, Some e) \<and> errors_As e = Some None)))) \<and>
    (ReturnValues r \<noteq> None \<longrightarrow>
       (\<exists>m w1 returns w2. LoadModule runtime filePath w = (Returns (Some m, None), w1) \<and>
          Execute m ''process'' [GoInt32 1] w1 = (Returns (returns, None), w2) \<and>
          ReturnValues r = returns \<and>
          (Success r \<or> (\<exists>v w3. Close m w2 = (Raises v, w3))))) \<and>
    (ReturnValues_present r \<longrightarrow> ReturnValues r \<noteq> None)"
  using assms
  by (auto simp add: rt_defs ErrorMessage_present_def ReturnValues_present_def
        split: prod.splits outcome.splits option.splits deferred_outcome.splits)

theorem result_fields_witness:
  "\<exists>r w' tr. processWasmFileWithRuntime ''/test/valid.wasm'' answer_runtime False =
       (Returns r, w', tr) \<and> Success r \<and> \<not> ErrorMessage_present r \<and>
     ReturnValues r = Some [GoInt32 42] \<and> ReturnValues_present r"
proof -
  obtain r w' tr where eq:
    "processWasmFileWithRuntime ''/test/valid.wasm'' answer_runtime False = (Returns r, w', tr)"
    and s: "Success r"
    by (simp add: answer_runtime_def answer_module_def MockWasmRuntime_def MockWasmModule_def
          rt_defs)
  have l: "LoadModule answer_runtime ''/test/valid.wasm'' False =
      (Returns (Some answer_module, None), False)"
    by (simp add: answer_runtime_def MockWasmRuntime_def)
  have x: "Execute answer_module ''process'' [GoInt32 1] False =
      (Returns (Some [GoInt32 42], None), False)"
    by (simp add: answer_module_def MockWasmModule_def)
  note T = result_fields [OF eq, THEN conjunct1, THEN mp, OF s]
  from T have e: "\<not> ErrorMessage_present r" by (rule conjunct1)
  from T obtain m w1 returns w2 where
    l': "LoadModule answer_runtime ''/test/valid.wasm'' False = (Returns (Some m, None), w1)"
    and x': "Execute m ''process'' [GoInt32 1] w1 = (Returns (returns, None), w2)"
    and rv: "ReturnValues r = returns"
    and pr: "ReturnValues_present r \<longleftrightarrow> (\<exists>vs. returns = Some vs \<and> vs \<noteq> [])"
    by (elim conjE exE) (rule that)
  from l l' have "m = answer_module" "w1 = False" by simp_all
  with x x' have "returns = Some [GoInt32 42]" by simp
  with rv pr have "ReturnValues r = Some [GoInt32 42]" "ReturnValues_present r" by simp_all
  with eq s e show ?thesis
    by (intro exI [of _ r] exI [of _ w'] exI [of _ tr]) simp
qed

text \<open>
  C10. For every path and every behaviour of the runtime (and of the SDK), panics
  included, the result's \<^verbatim>\<open>FilePath\<close> is the path and its \<^verbatim>\<open>FileName\<close> the base name of
  the path. The recovery closure leaves \<^verbatim>\<open>FilePath\<close>, \<^verbatim>\<open>FileName\<close> and \<^verbatim>\<open>ReturnValues\<close>
  as they are: without a panic it changes nothing, and with one it writes \<^verbatim>\<open>Success\<close>,
  \<^verbatim>\<open>FailureStage\<close> and \<^verbatim>\<open>ErrorMessage\<close> only.
\<close>

theorem path_fields_kept:
  "(\<exists>r w' tr. processWasmFileWithRuntime filePath runtime w = (Returns r, w', tr) \<and>
      FilePath r = filePath \<and> FileName r = filepath_Base filePath) \<and>
   (\<exists>r s' tr. processWasmFile sdk path s = (Returns r, s', tr) \<and>
      FilePath r = path \<and> FileName r = filepath_Base path) \<and>
   FilePath (result (recovery fr)) = FilePath (result fr) \<and>
   FileName (result (recovery fr)) = FileName (result fr) \<and>
   ReturnValues (result (recovery fr)) = ReturnValues (result fr) \<and>
   (panicking fr = None \<longrightarrow> result (recovery fr) = result fr) \<and>
   (\<forall>v. panicking fr = Some v \<longrightarrow>
      result (recovery fr) =
        (result fr)\<lparr>Success := False, FailureStage := StageExecute,
                     ErrorMessage := ''panic recovered: '' @ v\<rparr>)"
proof -
  have 1: "\<exists>r w' tr. processWasmFileWithRuntime filePath runtime w = (Returns r, w', tr) \<and>
      FilePath r = filePath \<and> FileName r = filepath_Base filePath"
    by (rule rt_returns)
  from sdk_recovers [of sdk path s]
  have 2: "\<exists>r s' tr. processWasmFile sdk path s = (Returns r, s', tr) \<and>
      FilePath r = path \<and> FileName r = filepath_Base path"
    by (elim exE conjE) (intro exI conjI, assumption+)
  have 3: "FilePath (result (recovery fr)) = FilePath (result fr) \<and>
   FileName (result (recovery fr)) = FileName (result fr) \<and>
   ReturnValues (result (recovery fr)) = ReturnValues (result fr) \<and>
   (panicking fr = None \<longrightarrow> result (recovery fr) = result fr) \<and>
   (\<forall>v. panicking fr = Some v \<longrightarrow>
      result (recovery fr) =
        (result fr)\<lparr>Success := False, FailureStage := StageExecute,
                     ErrorMessage := ''panic recovered: '' @ v\<rparr>)"
    by (simp add: recovery_def split: option.splits)
  show ?thesis by (rule conjI [OF 1 conjI [OF 2 3]])
qed

theorem path_fields_kept_witness:
  "\<exists>r w' tr. processWasmFileWithRuntime ''/test/panic_cleanup.wasm'' panic_runtime False =
      (Returns r, w', tr) \<and>
    FilePath r = ''/test/panic_cleanup.wasm'' \<and> FileName r = ''panic_cleanup.wasm''"
proof -
  have b: "filepath_Base ''/test/panic_cleanup.wasm'' = ''panic_cleanup.wasm''"
    by (simp add: filepath_Base_def IsPathSeparator_def)
  from path_fields_kept [of "''/test/panic_cleanup.wasm''" panic_runtime False
      "StubWasmEdge (Panics ''invoke panic'')" "''valid.wasm''" 0 "enter ()"]
  have "\<exists>r w' tr. processWasmFileWithRuntime ''/test/panic_cleanup.wasm'' panic_runtime False =
      (Returns r, w', tr) \<and>
    FilePath r = ''/test/panic_cleanup.wasm'' \<and>
    FileName r = filepath_Base ''/test/panic_cleanup.wasm''"
    by (rule conjunct1)
  then show ?thesis by (simp only: b)
qed

section \<open>The batch runner\<close>

text \<open>The loop of \<^verbatim>\<open>collectWasmFiles\<close> filters and maps, keeping the order.\<close>

lemma collect_loop_eq:
  "collect_loop Join dirPath entries files =
     files @ map (\<lambda>entry. Join dirPath (Name entry))
               (filter (\<lambda>entry. \<not> IsDir entry \<and> filepath_Ext (Name entry) = ''.wasm'') entries)"
  by (induction entries arbitrary: files) simp_all

text \<open>Incrementing one count adds one to the sum of the counts.\<close>

lemma dom_increment: "dom (increment counts stage) = insert stage (dom counts)"
  by (auto simp: increment_def)

lemma count_of_increment:
  "count_of (increment counts stage) k = count_of counts k + (if k = stage then 1 else 0)"
  by (simp add: count_of_def increment_def)

lemma sum_values_increment:
  assumes "finite (dom counts)"
  shows "sum_values (increment counts stage) = sum_values counts + 1"
proof (cases "stage \<in> dom counts")
  case True
  then obtain n where n: "counts stage = Some n" by auto
  have d: "dom (increment counts stage) = dom counts"
    using True by (auto simp: increment_def)
  have "sum_values (increment counts stage) =
        (\<Sum>k \<in> dom counts. the (increment counts stage k))"
    by (simp add: sum_values_def d)
  also have "\<dots> = the (increment counts stage stage) +
        (\<Sum>k \<in> dom counts - {stage}. the (increment counts stage k))"
    using assms True by (simp add: sum.remove)
  also have "(\<Sum>k \<in> dom counts - {stage}. the (increment counts stage k)) =
        (\<Sum>k \<in> dom counts - {stage}. the (counts k))"
    by (rule sum.cong) (auto simp: increment_def)
  also have "the (increment counts stage stage) = the (counts stage) + 1"
    by (simp add: increment_def n)
  finally have "sum_values (increment counts stage) =
        (the (counts stage) + (\<Sum>k \<in> dom counts - {stage}. the (counts k))) + 1"
    by simp
  also have "the (counts stage) + (\<Sum>k \<in> dom counts - {stage}. the (counts k)) =
        sum_values counts"
    using assms True by (simp add: sum_values_def sum.remove)
  finally show ?thesis .
next
  case False
  then have n: "counts stage = None" by auto
  have "sum_values (increment counts stage) =
        the (increment counts stage stage) +
        (\<Sum>k \<in> dom counts. the (increment counts stage k))"
    using assms False by (simp add: sum_values_def dom_increment)
  also have "(\<Sum>k \<in> dom counts. the (increment counts stage k)) =
        (\<Sum>k \<in> dom counts. the (counts k))"
    by (rule sum.cong) (use False in \<open>auto simp: increment_def\<close>)
  also have "the (increment counts stage stage) = 1"
    by (simp add: increment_def n)
  finally show ?thesis by (simp add: sum_values_def)
qed

text \<open>
  What the loop over the files keeps: it never panics, appends one result per file in
  order, and moves the counters together.
\<close>

lemma process_files_invariant:
  assumes "finite (dom (FailureCounts report))"
  shows "\<exists>report' rs.
      process_files runtime files report w = (Returns report', world_after runtime files w) \<and>
      Results report' = Results report @ rs \<and>
      map FilePath rs = files \<and>
      TotalFiles report' = TotalFiles report \<and>
      Passed report' = Passed report + int (length (filter Success rs)) \<and>
      Failed report' = Failed report + int (length (filter (\<lambda>r. \<not> Success r) rs)) \<and>
      finite (dom (FailureCounts report')) \<and>
      dom (FailureCounts report) \<subseteq> dom (FailureCounts report') \<and>
      sum_values (FailureCounts report') - Failed report' =
        sum_values (FailureCounts report) - Failed report \<and>
      (\<forall>k. count_of (FailureCounts report') k = count_of (FailureCounts report) k +
            int (length (filter (\<lambda>r. \<not> Success r \<and> FailureStage r = k) rs))) \<and>
      (\<forall>i < length files. \<exists>tr.
          processWasmFileWithRuntime (files ! i) runtime (world_after runtime (take i files) w) =
            (Returns (rs ! i), world_after runtime (take (Suc i) files) w, tr))"
  using assms
proof (induction files arbitrary: report w)
  case Nil
  then show ?case by simp
next
  case (Cons filePath files)
  from rt_returns [of filePath runtime w] obtain res w1 tr1 where
    p: "processWasmFileWithRuntime filePath runtime w = (Returns res, w1, tr1)"
    and fp: "FilePath res = filePath" by blast
  define report1 where "report1 =
     (if Success res
      then report\<lparr>Results := Results report @ [res], Passed := Passed report + 1\<rparr>
      else report\<lparr>Results := Results report @ [res], Failed := Failed report + 1,
             FailureCounts := increment (FailureCounts report) (FailureStage res)\<rparr>)"
  have step: "process_files runtime (filePath # files) report w =
      process_files runtime files report1 w1"
    by (simp add: p report1_def)
  have wa: "world_after runtime (filePath # files) w = world_after runtime files w1"
    by (simp add: p)
  have fin1: "finite (dom (FailureCounts report1))"
    using Cons.prems by (simp add: report1_def dom_increment)
  from Cons.IH [OF fin1, of w1] obtain report' rs where ih:
    "process_files runtime files report1 w1 = (Returns report', world_after runtime files w1)"
    "Results report' = Results report1 @ rs"
    "map FilePath rs = files"
    "TotalFiles report' = TotalFiles report1"
    "Passed report' = Passed report1 + int (length (filter Success rs))"
    "Failed report' = Failed report1 + int (length (filter (\<lambda>r. \<not> Success r) rs))"
    "finite (dom (FailureCounts report'))"
    "dom (FailureCounts report1) \<subseteq> dom (FailureCounts report')"
    "sum_values (FailureCounts report') - Failed report' =
        sum_values (FailureCounts report1) - Failed report1"
    "\<forall>k. count_of (FailureCounts report') k = count_of (FailureCounts report1) k +
            int (length (filter (\<lambda>r. \<not> Success r \<and> FailureStage r = k) rs))"
    "\<forall>i < length files. \<exists>tr.
          processWasmFileWithRuntime (files ! i) runtime (world_after runtime (take i files) w1) =
            (Returns (rs ! i), world_after runtime (take (Suc i) files) w1, tr)"
    by blast
  have r1: "Results report1 = Results report @ [res]"
    "TotalFiles report1 = TotalFiles report"
    "Passed report1 = Passed report + (if Success res then 1 else 0)"
    "Failed report1 = Failed report + (if Success res then 0 else 1)"
    "dom (FailureCounts report) \<subseteq> dom (FailureCounts report1)"
    by (auto simp: report1_def dom_increment)
  have s1: "sum_values (FailureCounts report1) - Failed report1 =
            sum_values (FailureCounts report) - Failed report"
    using Cons.prems by (simp add: report1_def sum_values_increment)
  have c1: "\<And>k. count_of (FailureCounts report1) k = count_of (FailureCounts report) k +
              (if \<not> Success res \<and> FailureStage res = k then 1 else 0)"
    by (auto simp: report1_def count_of_increment)
  have idx: "\<forall>i < length (filePath # files). \<exists>tr.
          processWasmFileWithRuntime ((filePath # files) ! i) runtime
              (world_after runtime (take i (filePath # files)) w) =
            (Returns ((res # rs) ! i), world_after runtime (take (Suc i) (filePath # files)) w, tr)"
  proof (intro allI impI)
    fix i assume "i < length (filePath # files)"
    then show "\<exists>tr. processWasmFileWithRuntime ((filePath # files) ! i) runtime
              (world_after runtime (take i (filePath # files)) w) =
            (Returns ((res # rs) ! i), world_after runtime (take (Suc i) (filePath # files)) w, tr)"
    proof (cases i)
      case 0
      then show ?thesis by (simp add: p)
    next
      case (Suc j)
      with \<open>i < length (filePath # files)\<close> have "j < length files" by simp
      with ih(11) show ?thesis by (simp add: Suc p)
    qed
  qed
  show ?case
    apply (rule exI [of _ report'])
    apply (rule exI [of _ "res # rs"])
    using ih(1-10) r1 s1 c1 idx fp step wa
    apply (intro conjI)
    apply simp_all
    done
qed

lemma sum_values_initial: "sum_values (FailureCounts initial_report) = 0"
  unfolding sum_values_def
  by (rule sum.neutral) (auto simp: initial_report_def split: if_splits)

lemma initial_report_facts:
  "finite (dom (FailureCounts initial_report))"
  "dom (FailureCounts initial_report) = {StageLoad, StageValidate, StageInstantiate, StageExecute}"
  "count_of (FailureCounts initial_report) k = 0"
  "TotalFiles initial_report = 0" "Passed initial_report = 0" "Failed initial_report = 0"
  "Results initial_report = []"
  by (auto simp: initial_report_def count_of_def stage_defs)


lemma collectWasmFiles_ok:
  assumes "ReadDir dirPath w = (entries, None)"
  shows "collectWasmFiles ReadDir Join dirPath w =
     (map (\<lambda>entry. Join dirPath (Name entry))
        (filter (\<lambda>entry. \<not> IsDir entry \<and> filepath_Ext (Name entry) = ''.wasm'') entries),
      None)"
  using assms by (simp add: collectWasmFiles_def collect_loop_eq)

lemma collectWasmFiles_err:
  assumes "ReadDir dirPath w = (entries, Some e)"
  shows "collectWasmFiles ReadDir Join dirPath w =
     ([], Some (WrapError (''failed to read directory: '' @ fmt_v e) e))"
  using assms by (simp add: collectWasmFiles_def)

lemma runFuzzer_err:
  assumes "ReadDir dirPath w = (entries, Some e)"
  shows "runFuzzerWithRuntime ReadDir Join dirPath runtime w =
     (Returns (initial_report, Some (WrapError (''failed to read directory: '' @ fmt_v e) e)), w)"
  using assms by (simp add: runFuzzerWithRuntime_def collectWasmFiles_def)

lemma runFuzzer_ok:
  assumes "collectWasmFiles ReadDir Join dirPath w = (files, None)"
  shows "\<exists>report.
      runFuzzerWithRuntime ReadDir Join dirPath runtime w =
        (Returns (report, None), world_after runtime files w) \<and>
      map FilePath (Results report) = files \<and>
      TotalFiles report = int (length files) \<and>
      Passed report = int (length (filter Success (Results report))) \<and>
      Failed report = int (length (filter (\<lambda>r. \<not> Success r) (Results report))) \<and>
      finite (dom (FailureCounts report)) \<and>
      {StageLoad, StageValidate, StageInstantiate, StageExecute} \<subseteq> dom (FailureCounts report) \<and>
      sum_values (FailureCounts report) = Failed report \<and>
      (\<forall>k. count_of (FailureCounts report) k =
            int (length (filter (\<lambda>r. \<not> Success r \<and> FailureStage r = k) (Results report)))) \<and>
      (\<forall>i < length files. \<exists>tr.
          processWasmFileWithRuntime (files ! i) runtime (world_after runtime (take i files) w) =
            (Returns (Results report ! i), world_after runtime (take (Suc i) files) w, tr))"
proof -
  let ?r0 = "initial_report\<lparr>TotalFiles := int (length files)\<rparr>"
  have fin: "finite (dom (FailureCounts ?r0))" by (simp add: initial_report_facts)
  from process_files_invariant [OF fin, of runtime files w] obtain report rs where inv:
    "process_files runtime files ?r0 w = (Returns report, world_after runtime files w)"
    "Results report = Results ?r0 @ rs"
    "map FilePath rs = files"
    "TotalFiles report = TotalFiles ?r0"
    "Passed report = Passed ?r0 + int (length (filter Success rs))"
    "Failed report = Failed ?r0 + int (length (filter (\<lambda>r. \<not> Success r) rs))"
    "finite (dom (FailureCounts report))"
    "dom (FailureCounts ?r0) \<subseteq> dom (FailureCounts report)"
    "sum_values (FailureCounts report) - Failed report =
        sum_values (FailureCounts ?r0) - Failed ?r0"
    "\<forall>k. count_of (FailureCounts report) k = count_of (FailureCounts ?r0) k +
            int (length (filter (\<lambda>r. \<not> Success r \<and> FailureStage r = k) rs))"
    "\<forall>i < length files. \<exists>tr.
          processWasmFileWithRuntime (files ! i) runtime (world_after runtime (take i files) w) =
            (Returns (rs ! i), world_after runtime (take (Suc i) files) w, tr)"
    by blast
  have rs: "Results report = rs" using inv(2) by (simp add: initial_report_facts)
  have run: "runFuzzerWithRuntime ReadDir Join dirPath runtime w =
        (Returns (report, None), world_after runtime files w)"
    by (simp add: runFuzzerWithRuntime_def assms inv(1))
  show ?thesis
    apply (rule exI [of _ report])
    using run rs inv(3-11)
    apply (intro conjI)
    apply (simp_all add: initial_report_facts sum_values_initial)
    done
qed

text \<open>
  C4. For every listing and every runtime, \<^verbatim>\<open>runFuzzerWithRuntime\<close> returns a report
  with \<^verbatim>\<open>Passed + Failed = TotalFiles = len(Results)\<close>; the values of \<^verbatim>\<open>FailureCounts\<close>
  sum to \<^verbatim>\<open>Failed\<close>; the keys \<^verbatim>\<open>load\<close>, \<^verbatim>\<open>validate\<close>, \<^verbatim>\<open>instantiate\<close> and \<^verbatim>\<open>execute\<close> are
  present; no value is negative; and the count of each stage is the number of failed
  results with that stage.
\<close>

theorem report_invariants:
  "\<exists>report err w'.
      runFuzzerWithRuntime ReadDir Join dirPath runtime w = (Returns (report, err), w') \<and>
      Passed report + Failed report = TotalFiles report \<and>
      TotalFiles report = int (length (Results report)) \<and>
      finite (dom (FailureCounts report)) \<and>
      sum_values (FailureCounts report) = Failed report \<and>
      StageLoad \<in> dom (FailureCounts report) \<and>
      StageValidate \<in> dom (FailureCounts report) \<and>
      StageInstantiate \<in> dom (FailureCounts report) \<and>
      StageExecute \<in> dom (FailureCounts report) \<and>
      (\<forall>stage n. FailureCounts report stage = Some n \<longrightarrow> 0 \<le> n) \<and>
      (\<forall>stage. count_of (FailureCounts report) stage =
          int (length (filter (\<lambda>r. \<not> Success r \<and> FailureStage r = stage) (Results report))))"
proof (cases "collectWasmFiles ReadDir Join dirPath w")
  case (Pair files err)
  show ?thesis
  proof (cases err)
    case None
    with Pair have c: "collectWasmFiles ReadDir Join dirPath w = (files, None)" by simp
    from runFuzzer_ok [OF c, of runtime] obtain report where r:
      "runFuzzerWithRuntime ReadDir Join dirPath runtime w =
        (Returns (report, None), world_after runtime files w)"
      "map FilePath (Results report) = files"
      "TotalFiles report = int (length files)"
      "Passed report = int (length (filter Success (Results report)))"
      "Failed report = int (length (filter (\<lambda>r. \<not> Success r) (Results report)))"
      "finite (dom (FailureCounts report))"
      "{StageLoad, StageValidate, StageInstantiate, StageExecute} \<subseteq> dom (FailureCounts report)"
      "sum_values (FailureCounts report) = Failed report"
      "\<forall>k. count_of (FailureCounts report) k =
            int (length (filter (\<lambda>r. \<not> Success r \<and> FailureStage r = k) (Results report)))"
      by blast
    from r(2) have len: "length (Results report) = length files"
      by (metis length_map)
    have pf: "Passed report + Failed report = TotalFiles report"
      using r(3,4,5) len sum_length_filter_compl [of Success "Results report"] by simp
    have nn: "\<forall>stage n. FailureCounts report stage = Some n \<longrightarrow> 0 \<le> n"
    proof (intro allI impI)
      fix stage n assume "FailureCounts report stage = Some n"
      then have "count_of (FailureCounts report) stage = n" by (simp add: count_of_def)
      with r(9) show "0 \<le> n" by simp
    qed
    show ?thesis
      apply (rule exI [of _ report])
      apply (rule exI [of _ None])
      apply (rule exI [of _ "world_after runtime files w"])
      using r pf nn len
      apply (intro conjI)
      apply simp_all
      done
  next
    case (Some e)
    with Pair have run: "runFuzzerWithRuntime ReadDir Join dirPath runtime w =
        (Returns (initial_report, Some e), w)"
      by (simp add: runFuzzerWithRuntime_def)
    show ?thesis
      apply (rule exI [of _ initial_report])
      apply (rule exI [of _ "Some e"])
      apply (rule exI [of _ w])
      using run
      apply (intro conjI)
      apply (simp_all add: initial_report_facts sum_values_initial)
      apply (auto simp: initial_report_def split: if_splits)
      done
  qed
qed

lemma corpus_files:
  "collectWasmFiles corpus_ReadDir slash_Join ''corpus'' False =
     ([''corpus/01_valid_module.wasm'', ''corpus/02_empty_file.wasm''], None)"
  by (simp add: collectWasmFiles_def corpus_ReadDir_def slash_Join_def filepath_Ext_def
        IsPathSeparator_def)

lemma corpus_run:
  "\<exists>report. runFuzzerWithRuntime corpus_ReadDir slash_Join ''corpus'' corpus_runtime False =
      (Returns (report, None), True) \<and>
     TotalFiles report = 2 \<and> Passed report = 1 \<and> Failed report = 1 \<and>
     map FilePath (Results report) =
       [''corpus/01_valid_module.wasm'', ''corpus/02_empty_file.wasm''] \<and>
     map Success (Results report) = [True, False] \<and>
     map FailureStage (Results report) = [StageNone, StageLoad] \<and>
     FailureCounts report StageLoad = Some 1 \<and>
     FailureCounts report StageExecute = Some 0"
  by (simp add: runFuzzerWithRuntime_def corpus_files corpus_runtime_def MockWasmRuntime_def
        MockWasmModule_def rt_defs initial_report_def increment_def stage_defs
        filepath_Base_def IsPathSeparator_def)

theorem report_invariants_witness:
  "\<exists>report. runFuzzerWithRuntime corpus_ReadDir slash_Join ''corpus'' corpus_runtime False =
      (Returns (report, None), True) \<and>
     TotalFiles report = 2 \<and> Passed report = 1 \<and> Failed report = 1 \<and>
     Passed report + Failed report = TotalFiles report \<and>
     TotalFiles report = int (length (Results report)) \<and>
     sum_values (FailureCounts report) = Failed report \<and>
     FailureCounts report StageLoad = Some 1 \<and>
     FailureCounts report StageExecute = Some 0"
proof -
  from corpus_run obtain report where c:
    "runFuzzerWithRuntime corpus_ReadDir slash_Join ''corpus'' corpus_runtime False =
      (Returns (report, None), True)"
    "TotalFiles report = 2" "Passed report = 1" "Failed report = 1"
    "FailureCounts report StageLoad = Some 1" "FailureCounts report StageExecute = Some 0"
    by blast
  from report_invariants [of corpus_ReadDir slash_Join "''corpus''" corpus_runtime False] c(1)
  have "Passed report + Failed report = TotalFiles report \<and>
     TotalFiles report = int (length (Results report)) \<and>
     sum_values (FailureCounts report) = Failed report"
    by auto
  with c show ?thesis by blast
qed

text \<open>
  C6. \<^verbatim>\<open>runFuzzerWithRuntime\<close> returns an error exactly when the listing does: then the
  report is the initial one (no result, counters zero) and the runtime was not called.
  When the listing succeeds, for every runtime the batch returns without error or panic
  a report with one result per discovered file, in order, whatever the modules did.
\<close>

theorem batch_fails_only_on_discovery:
  "(\<forall>entries e. ReadDir dirPath w = (entries, Some e) \<longrightarrow>
      runFuzzerWithRuntime ReadDir Join dirPath runtime w =
        (Returns (initial_report,
           Some (WrapError (''failed to read directory: '' @ fmt_v e) e)), w) \<and>
      Results initial_report = [] \<and> TotalFiles initial_report = 0 \<and>
      Passed initial_report = 0 \<and> Failed initial_report = 0) \<and>
   (\<forall>entries. ReadDir dirPath w = (entries, None) \<longrightarrow>
      (\<exists>report files.
         collectWasmFiles ReadDir Join dirPath w = (files, None) \<and>
         runFuzzerWithRuntime ReadDir Join dirPath runtime w =
           (Returns (report, None), world_after runtime files w) \<and>
         length (Results report) = length files \<and>
         map FilePath (Results report) = files \<and>
         TotalFiles report = int (length files)))"
proof (intro conjI allI impI)
  fix entries e assume a: "ReadDir dirPath w = (entries, Some e)"
  from runFuzzer_err [of ReadDir dirPath w entries e Join runtime, OF a]
  show "runFuzzerWithRuntime ReadDir Join dirPath runtime w =
        (Returns (initial_report,
           Some (WrapError (''failed to read directory: '' @ fmt_v e) e)), w)" .
  show "Results initial_report = []" "TotalFiles initial_report = 0"
    "Passed initial_report = 0" "Failed initial_report = 0"
    by (simp_all add: initial_report_facts)
next
  fix entries assume a: "ReadDir dirPath w = (entries, None)"
  define files where "files = collect_loop Join dirPath entries []"
  have c: "collectWasmFiles ReadDir Join dirPath w = (files, None)"
    using a by (simp add: collectWasmFiles_def files_def)
  from runFuzzer_ok [of ReadDir Join dirPath w files runtime, OF c] obtain report where r:
    "runFuzzerWithRuntime ReadDir Join dirPath runtime w =
        (Returns (report, None), world_after runtime files w)"
    "map FilePath (Results report) = files"
    "TotalFiles report = int (length files)"
    by blast
  from r(2) have "length (Results report) = length files" by (metis length_map)
  with c r show "\<exists>report files.
         collectWasmFiles ReadDir Join dirPath w = (files, None) \<and>
         runFuzzerWithRuntime ReadDir Join dirPath runtime w =
           (Returns (report, None), world_after runtime files w) \<and>
         length (Results report) = length files \<and>
         map FilePath (Results report) = files \<and>
         TotalFiles report = int (length files)"
    by blast
qed

theorem batch_fails_only_on_discovery_witness:
  "(\<exists>err. runFuzzerWithRuntime denied_ReadDir slash_Join ''corpus'' corpus_runtime False =
       (Returns (initial_report, Some err), False)) \<and>
   (\<exists>report. runFuzzerWithRuntime corpus_ReadDir slash_Join ''corpus'' corpus_runtime False =
       (Returns (report, None), True) \<and> length (Results report) = 2 \<and>
     map Success (Results report) = [True, False])"
proof -
  note T = batch_fails_only_on_discovery [of denied_ReadDir "''corpus''" False slash_Join
      corpus_runtime]
  have d: "denied_ReadDir ''corpus'' False =
      ([], Some (PlainError ''open corpus: permission denied''))"
    by (simp add: denied_ReadDir_def)
  from T d have 1: "\<exists>err. runFuzzerWithRuntime denied_ReadDir slash_Join ''corpus''
       corpus_runtime False = (Returns (initial_report, Some err), False)"
    by blast
  note U = batch_fails_only_on_discovery [of corpus_ReadDir "''corpus''" False slash_Join
      corpus_runtime]
  have e: "\<exists>entries. corpus_ReadDir ''corpus'' False = (entries, None)"
    by (simp add: corpus_ReadDir_def)
  from U e obtain report files where u:
    "collectWasmFiles corpus_ReadDir slash_Join ''corpus'' False = (files, None)"
    "runFuzzerWithRuntime corpus_ReadDir slash_Join ''corpus'' corpus_runtime False =
       (Returns (report, None), world_after corpus_runtime files False)"
    "length (Results report) = length files"
    by blast
  from u(1) corpus_files have f: "files = [''corpus/01_valid_module.wasm'',
      ''corpus/02_empty_file.wasm'']" by simp
  from corpus_run u(2) have "world_after corpus_runtime files False = True"
     "map Success (Results report) = [True, False]" by auto
  with u(2,3) f have 2: "\<exists>report. runFuzzerWithRuntime corpus_ReadDir slash_Join ''corpus''
       corpus_runtime False = (Returns (report, None), True) \<and> length (Results report) = 2 \<and>
     map Success (Results report) = [True, False]"
    by auto
  from 1 2 show ?thesis by (rule conjI)
qed

text \<open>
  C7. When the listing succeeds, the candidates are the entries that are not
  directories and whose name has the extension \<^verbatim>\<open>.wasm\<close>, joined to the directory, in the
  order of the listing; and the i-th result is what the processor returned for the i-th
  candidate, run in the world the candidates before it left.
\<close>

theorem discovery_order:
  assumes "ReadDir dirPath w = (entries, None)"
    and "files = map (\<lambda>entry. Join dirPath (Name entry))
           (filter (\<lambda>entry. \<not> IsDir entry \<and> filepath_Ext (Name entry) = ''.wasm'') entries)"
  shows "collectWasmFiles ReadDir Join dirPath w = (files, None) \<and>
    (\<exists>report w'. runFuzzerWithRuntime ReadDir Join dirPath runtime w =
         (Returns (report, None), w') \<and>
       length (Results report) = length files \<and>
       map FilePath (Results report) = files \<and>
       (\<forall>i < length files. \<exists>tr.
          processWasmFileWithRuntime (files ! i) runtime (world_after runtime (take i files) w) =
            (Returns (Results report ! i), world_after runtime (take (Suc i) files) w, tr)))"
proof -
  have c: "collectWasmFiles ReadDir Join dirPath w = (files, None)"
    using assms by (simp add: collectWasmFiles_def collect_loop_eq)
  from runFuzzer_ok [of ReadDir Join dirPath w files runtime, OF c] obtain report where r:
    "runFuzzerWithRuntime ReadDir Join dirPath runtime w =
        (Returns (report, None), world_after runtime files w)"
    "map FilePath (Results report) = files"
    "\<forall>i < length files. \<exists>tr.
          processWasmFileWithRuntime (files ! i) runtime (world_after runtime (take i files) w) =
            (Returns (Results report ! i), world_after runtime (take (Suc i) files) w, tr)"
    by blast
  from r(2) have "length (Results report) = length files" by (metis length_map)
  with c r show ?thesis by blast
qed

theorem discovery_order_witness:
  "collectWasmFiles corpus_ReadDir slash_Join ''corpus'' False =
     ([''corpus/01_valid_module.wasm'', ''corpus/02_empty_file.wasm''], None) \<and>
   (\<exists>report w'. runFuzzerWithRuntime corpus_ReadDir slash_Join ''corpus'' corpus_runtime False =
         (Returns (report, None), w') \<and>
       map FilePath (Results report) =
         [''corpus/01_valid_module.wasm'', ''corpus/02_empty_file.wasm''])"
proof -
  let ?entries = "[\<lparr>Name = ''01_valid_module.wasm'', IsDir = False\<rparr>,
       \<lparr>Name = ''README.md'', IsDir = False\<rparr>,
       \<lparr>Name = ''old.wasm'', IsDir = True\<rparr>,
       \<lparr>Name = ''02_empty_file.wasm'', IsDir = False\<rparr>]"
  have a: "corpus_ReadDir ''corpus'' False = (?entries, None)"
    by (simp add: corpus_ReadDir_def)
  have b: "[''corpus/01_valid_module.wasm'', ''corpus/02_empty_file.wasm''] =
     map (\<lambda>entry. slash_Join ''corpus'' (Name entry))
           (filter (\<lambda>entry. \<not> IsDir entry \<and> filepath_Ext (Name entry) = ''.wasm'') ?entries)"
    by (simp add: slash_Join_def filepath_Ext_def IsPathSeparator_def)
  from discovery_order [where ReadDir = corpus_ReadDir and Join = slash_Join
      and runtime = corpus_runtime, OF a b]
  show ?thesis by (elim conjE exE) (intro conjI exI, assumption+)
qed

end
